theory Spec2Isabelle
  imports Complex_Main
begin

section \<open>Conventions of the embedding\<close>

text \<open>
  The TypeScript sources compute with IEEE doubles. The embedding reads a JavaScript
  \<open>number\<close> as a real number (as an integer where the source only ever produces
  integers: millisecond timestamps, second counters, list lengths); rounding is outside
  the model. Where the source can produce a value that is not a finite number by a
  division by zero or the square root of a negative number, the model returns \<open>None\<close>
  of \<open>real option\<close> instead of the HOL value of \<open>x / 0\<close>. Where an overflow or a NaN
  decides a property (the success score, the rotation of the path into the scene), the
  model computes with the numbers of the section on numbers that overflow. An optional
  field (\<open>velocity?: number\<close>) is an \<open>option\<close>, \<open>None\<close> for \<open>undefined\<close>.
\<close>

type_synonym vec3 = "real \<times> real \<times> real"

section \<open>Mission state store\<close>

datatype PropulsionType = chemical | ion | nuclear

datatype PayloadType = camera | spectrometer | probe

datatype TrajectoryType = hohmann | bi_elliptic | gravity_assist

datatype MissionPhase = PLANNING | LAUNCH | CRUISE | APPROACH | INTERCEPT | COMPLETE | FAILED

record MissionConfig =
  launchWindow :: string
  propulsionType :: PropulsionType
  payload :: "PayloadType list"
  trajectoryType :: "TrajectoryType option"
  fuelCapacity :: "real option"
  missionDuration :: "real option"

record MissionStatus =
  phase :: MissionPhase
  timeToIntercept :: "string option"
  distanceToTarget :: "real option"
  velocity :: "real option"
  fuelRemaining :: "real option"
  successProbability :: "real option"
  missionElapsed :: "string option"

record SimulationState =
  isRunning :: bool
  currentTime :: int
  timeAcceleration :: real
  elapsedTime :: int

text \<open>The field \<open>currentTime\<close> of \<open>missionData\<close> is \<open>dataTime\<close> here: record fields
  are global names in HOL.\<close>

record MissionData =
  dataTime :: int
  atlasPosition :: vec3
  earthPosition :: vec3

record MissionContextState =
  missionConfig :: MissionConfig
  missionStatus :: "MissionStatus option"
  simulationState :: SimulationState
  interceptorTrajectory :: "vec3 list option"
  missionData :: "MissionData option"

datatype MissionAction =
    SET_MISSION_CONFIG MissionConfig
  | START_SIMULATION
  | PAUSE_SIMULATION
  | RESET_SIMULATION
  | UPDATE_MISSION_STATUS MissionStatus
  | UPDATE_SIMULATION_TIME int
  | SET_INTERCEPTOR_TRAJECTORY "vec3 list"
  | UPDATE_MISSION_DATA "MissionData option"

text \<open>
  What the reducer reads from outside: the clock (\<open>Date.now()\<close>, read twice by the Start
  transition), the date parser (\<open>new Date(s).getTime()\<close>, \<open>None\<close> for the NaN of an
  unparsable string) and three draws of \<open>Math.random()\<close>.
\<close>

record Env =
  dateNow :: int
  dateNowStamp :: int
  getTime :: "string \<Rightarrow> int option"
  random1 :: real
  random2 :: real
  random3 :: real

subsection \<open>formatTime\<close>

text \<open>The remainder \<open>%\<close> of JavaScript takes the sign of the dividend.\<close>

definition jsRem :: "int \<Rightarrow> int \<Rightarrow> int" where
  "jsRem x y = (if x < 0 then - ((- x) mod \<bar>y\<bar>) else x mod \<bar>y\<bar>)"

fun natToString :: "nat \<Rightarrow> string" where
  "natToString n =
     (if n < 10 then [''0123456789'' ! n]
      else natToString (n div 10) @ [''0123456789'' ! (n mod 10)])"

declare natToString.simps [simp del]

definition toString :: "int \<Rightarrow> string" where
  "toString k = (if k < 0 then CHR ''-'' # natToString (nat (- k)) else natToString (nat k))"

definition padStart :: "nat \<Rightarrow> char \<Rightarrow> string \<Rightarrow> string" where
  "padStart w c s = replicate (w - length s) c @ s"

definition formatTime :: "int \<Rightarrow> string" where
  "formatTime seconds =
     (let hours = seconds div 3600;
          minutes = (jsRem seconds 3600) div 60;
          secs = jsRem seconds 60
      in padStart 2 CHR ''0'' (toString hours) @ '':'' @
         padStart 2 CHR ''0'' (toString minutes) @ '':'' @
         padStart 2 CHR ''0'' (toString secs))"

subsection \<open>missionReducer\<close>

fun missionReducer :: "Env \<Rightarrow> MissionContextState \<Rightarrow> MissionAction \<Rightarrow> MissionContextState" where
  "missionReducer env state (SET_MISSION_CONFIG cfg) = state\<lparr>missionConfig := cfg\<rparr>"
| "missionReducer env state START_SIMULATION =
     (let launchTime = getTime env (launchWindow (missionConfig state));
          currentTime0 = dateNow env;
          timeDiff = map_option (\<lambda>t. \<bar>real_of_int (t - currentTime0)\<bar> / (1000 * 60 * 60 * 24))
                       launchTime;
          successRate = (75::int);
          successRate =
            (if propulsionType (missionConfig state) = nuclear then successRate + 15
             else if propulsionType (missionConfig state) = ion then successRate + 10
             else if propulsionType (missionConfig state) = chemical then successRate + 5
             else successRate);
          successRate =
            (case timeDiff of
               None \<Rightarrow> successRate
             | Some d \<Rightarrow> if d < 1 then successRate + 10
                         else if d > 30 then successRate - 15 else successRate);
          payloadComplexity = int (length (payload (missionConfig state)));
          successRate = max 60 (min 95 (successRate - payloadComplexity * 2));
          timeToIntercept0 = \<lfloor>random1 env * 3600 + 1800\<rfloor>;
          distance = \<lfloor>random2 env * 50000000 + 100000000\<rfloor>;
          velocity0 = \<lfloor>random3 env * 5000 + 15000\<rfloor>
      in state
          \<lparr>simulationState := (simulationState state)
              \<lparr>isRunning := True, elapsedTime := 0, currentTime := dateNowStamp env\<rparr>,
           missionStatus := Some
              \<lparr>phase = LAUNCH,
               timeToIntercept = Some (formatTime timeToIntercept0),
               distanceToTarget = Some (real_of_int distance),
               velocity = Some (real_of_int velocity0),
               fuelRemaining = Some 100,
               successProbability = Some (real_of_int successRate),
               missionElapsed = Some ''00:00:00''\<rparr>\<rparr>)"
| "missionReducer env state PAUSE_SIMULATION =
     state\<lparr>simulationState := (simulationState state)\<lparr>isRunning := False\<rparr>\<rparr>"
| "missionReducer env state RESET_SIMULATION =
     state
       \<lparr>simulationState := (simulationState state)
           \<lparr>isRunning := False, elapsedTime := 0, currentTime := dateNow env\<rparr>,
        missionStatus := None\<rparr>"
| "missionReducer env state (UPDATE_MISSION_STATUS st) = state\<lparr>missionStatus := Some st\<rparr>"
| "missionReducer env state (UPDATE_SIMULATION_TIME t) =
     state
       \<lparr>simulationState := (simulationState state)
           \<lparr>currentTime := t, elapsedTime := elapsedTime (simulationState state) + 1\<rparr>\<rparr>"
| "missionReducer env state (SET_INTERCEPTOR_TRAJECTORY pts) =
     state\<lparr>interceptorTrajectory := Some pts\<rparr>"
| "missionReducer env state (UPDATE_MISSION_DATA d) = state\<lparr>missionData := d\<rparr>"

subsection \<open>The telemetry tick of MissionProvider\<close>

text \<open>\<open>v || 0\<close> on an optional number: \<open>undefined\<close> and \<open>0\<close> both give \<open>0\<close>.\<close>

definition orZero :: "real option \<Rightarrow> real" where
  "orZero v = (case v of None \<Rightarrow> 0 | Some x \<Rightarrow> if x = 0 then 0 else x)"

definition updatedStatus :: "Env \<Rightarrow> MissionContextState \<Rightarrow> MissionStatus \<Rightarrow> MissionStatus" where
  "updatedStatus env state st =
     (let elapsed = dateNow env - currentTime (simulationState state);
          elapsedSeconds = elapsed div 1000
      in st\<lparr>missionElapsed := Some (formatTime elapsedSeconds),
            velocity := Some (max 0 (orZero (velocity st) - random1 env * 100)),
            distanceToTarget := Some (max 0 (orZero (distanceToTarget st) - random2 env * 1000000)),
            fuelRemaining := Some (max 0 (orZero (fuelRemaining st) - 0.1))\<rparr>)"

text \<open>The interval callback; the interval exists only while the simulation runs.\<close>

definition simulationTick :: "Env \<Rightarrow> MissionContextState \<Rightarrow> MissionContextState" where
  "simulationTick env state =
     (if \<not> isRunning (simulationState state) then state
      else case missionStatus state of
             None \<Rightarrow> state
           | Some st \<Rightarrow> missionReducer env state (UPDATE_MISSION_STATUS (updatedStatus env state st)))"


subsection \<open>A concrete store\<close>

definition demoConfig :: MissionConfig where
  "demoConfig = \<lparr>launchWindow = ''2025-10-01T12:00'', propulsionType = ion,
     payload = [camera, probe], trajectoryType = Some hohmann,
     fuelCapacity = Some 10000, missionDuration = Some 365\<rparr>"

definition demoStatus :: MissionStatus where
  "demoStatus = \<lparr>phase = CRUISE, timeToIntercept = Some ''00:45:00'',
     distanceToTarget = Some 500000, velocity = Some 40, fuelRemaining = Some (1/20),
     successProbability = Some 80, missionElapsed = Some ''00:00:07''\<rparr>"

definition demoState :: MissionContextState where
  "demoState = \<lparr>missionConfig = demoConfig, missionStatus = Some demoStatus,
     simulationState = \<lparr>isRunning = True, currentTime = 1000, timeAcceleration = 1,
       elapsedTime = 7\<rparr>,
     interceptorTrajectory = None, missionData = None\<rparr>"

definition demoEnv :: Env where
  "demoEnv = \<lparr>dateNow = 9000, dateNowStamp = 9001, getTime = (\<lambda>s. Some 5000),
     random1 = 1/2, random2 = 3/4, random3 = 1/4\<rparr>"


section \<open>Numbers that overflow\<close>

text \<open>
  Where a claim depends on a double that is not a finite number, the embedding computes
  with \<open>jsnum\<close>: a finite number (a real; rounding is still outside the model, and zero
  has no sign), the two infinities, or NaN. An arithmetic result whose exact value has a
  magnitude of at least \<open>2^1024 - 2^970\<close>, the least that rounds to an infinity,
  overflows. The infinities and NaN combine as IEEE 754 says. The largest finite double
  is \<open>maxValue\<close>.
\<close>

datatype jsnum = Fin real | PosInf | NegInf | NaN

definition overflowThreshold :: real where
  "overflowThreshold = 2 ^ 1024 - 2 ^ 970"

definition maxValue :: real where
  "maxValue = 2 ^ 1024 - 2 ^ 971"

definition fromReal :: "real \<Rightarrow> jsnum" where
  "fromReal r =
     (if overflowThreshold \<le> r then PosInf
      else if r \<le> - overflowThreshold then NegInf
      else Fin r)"

fun jsNeg :: "jsnum \<Rightarrow> jsnum" where
  "jsNeg (Fin a) = Fin (- a)"
| "jsNeg PosInf = NegInf"
| "jsNeg NegInf = PosInf"
| "jsNeg NaN = NaN"

fun jsAdd :: "jsnum \<Rightarrow> jsnum \<Rightarrow> jsnum" where
  "jsAdd (Fin a) (Fin b) = fromReal (a + b)"
| "jsAdd NaN y = NaN"
| "jsAdd x NaN = NaN"
| "jsAdd PosInf NegInf = NaN"
| "jsAdd NegInf PosInf = NaN"
| "jsAdd PosInf y = PosInf"
| "jsAdd x PosInf = PosInf"
| "jsAdd NegInf y = NegInf"
| "jsAdd x NegInf = NegInf"

definition jsSub :: "jsnum \<Rightarrow> jsnum \<Rightarrow> jsnum" where
  "jsSub x y = jsAdd x (jsNeg y)"

text \<open>An infinity times a finite number: NaN at zero, else an infinity of the product's
  sign.\<close>

definition infTimes :: "bool \<Rightarrow> real \<Rightarrow> jsnum" where
  "infTimes positive b =
     (if b = 0 then NaN else if (0 < b) = positive then PosInf else NegInf)"

fun jsMul :: "jsnum \<Rightarrow> jsnum \<Rightarrow> jsnum" where
  "jsMul (Fin a) (Fin b) = fromReal (a * b)"
| "jsMul NaN y = NaN"
| "jsMul x NaN = NaN"
| "jsMul PosInf (Fin b) = infTimes True b"
| "jsMul NegInf (Fin b) = infTimes False b"
| "jsMul (Fin a) PosInf = infTimes True a"
| "jsMul (Fin a) NegInf = infTimes False a"
| "jsMul PosInf PosInf = PosInf"
| "jsMul NegInf NegInf = PosInf"
| "jsMul PosInf NegInf = NegInf"
| "jsMul NegInf PosInf = NegInf"

fun jsDivide :: "jsnum \<Rightarrow> jsnum \<Rightarrow> jsnum" where
  "jsDivide (Fin a) (Fin b) =
     (if b = 0 then (if a = 0 then NaN else if 0 < a then PosInf else NegInf)
      else fromReal (a / b))"
| "jsDivide NaN y = NaN"
| "jsDivide x NaN = NaN"
| "jsDivide (Fin a) PosInf = Fin 0"
| "jsDivide (Fin a) NegInf = Fin 0"
| "jsDivide PosInf (Fin b) = (if 0 \<le> b then PosInf else NegInf)"
| "jsDivide NegInf (Fin b) = (if 0 \<le> b then NegInf else PosInf)"
| "jsDivide PosInf y = NaN"
| "jsDivide NegInf y = NaN"

text \<open>\<open>Math.min\<close>, \<open>Math.max\<close> and \<open>Math.abs\<close>: NaN when an argument is NaN.\<close>

fun jsMin :: "jsnum \<Rightarrow> jsnum \<Rightarrow> jsnum" where
  "jsMin NaN y = NaN"
| "jsMin x NaN = NaN"
| "jsMin NegInf y = NegInf"
| "jsMin x NegInf = NegInf"
| "jsMin PosInf y = y"
| "jsMin x PosInf = x"
| "jsMin (Fin a) (Fin b) = Fin (min a b)"

fun jsMax :: "jsnum \<Rightarrow> jsnum \<Rightarrow> jsnum" where
  "jsMax NaN y = NaN"
| "jsMax x NaN = NaN"
| "jsMax PosInf y = PosInf"
| "jsMax x PosInf = PosInf"
| "jsMax NegInf y = y"
| "jsMax x NegInf = x"
| "jsMax (Fin a) (Fin b) = Fin (max a b)"

fun jsAbs :: "jsnum \<Rightarrow> jsnum" where
  "jsAbs (Fin a) = Fin \<bar>a\<bar>"
| "jsAbs PosInf = PosInf"
| "jsAbs NegInf = PosInf"
| "jsAbs NaN = NaN"

text \<open>\<open>Math.cos\<close> and \<open>Math.sin\<close>: NaN at an infinity and at NaN.\<close>

fun jsCos :: "jsnum \<Rightarrow> jsnum" where
  "jsCos (Fin a) = Fin (cos a)"
| "jsCos x = NaN"

fun jsSin :: "jsnum \<Rightarrow> jsnum" where
  "jsSin (Fin a) = Fin (sin a)"
| "jsSin x = NaN"

text \<open>\<open>x || 0\<close>: NaN and zero are falsy (NaN also stands for a field that is
  \<open>undefined\<close>).\<close>

fun jsOrZero :: "jsnum \<Rightarrow> jsnum" where
  "jsOrZero NaN = Fin 0"
| "jsOrZero (Fin a) = (if a = 0 then Fin 0 else Fin a)"
| "jsOrZero x = x"

section \<open>Orbital mechanics library\<close>

text \<open>The fields of \<open>OrbitalElements\<close> carry the prefix \<open>el_\<close>: \<open>a\<close>, \<open>e\<close> and
  \<open>i\<close> would otherwise be global constants.\<close>

record OrbitalElements =
  el_a :: real
  el_e :: real
  el_i :: real
  el_omega :: real
  el_Omega :: real
  el_M0 :: real
  el_epoch :: real

text \<open>Division and square root, \<open>None\<close> where the double is not a finite number.\<close>

definition jsDiv :: "real \<Rightarrow> real \<Rightarrow> real option" where
  "jsDiv x y = (if y = 0 then None else Some (x / y))"

definition jsSqrt :: "real \<Rightarrow> real option" where
  "jsSqrt x = (if x < 0 then None else Some (sqrt x))"

text \<open>\<open>Math.atan2(y, x)\<close> on real numbers (signed zeros are outside the model).\<close>

definition atan2 :: "real \<Rightarrow> real \<Rightarrow> real" where
  "atan2 y x =
     (if 0 < x then arctan (y / x)
      else if x < 0 then (if 0 \<le> y then arctan (y / x) + pi else arctan (y / x) - pi)
      else if 0 < y then pi / 2
      else if y < 0 then - (pi / 2)
      else 0)"

definition degToRad :: "real \<Rightarrow> real" where
  "degToRad degrees = degrees * (pi / 180)"

subsection \<open>solveKeplerEquation\<close>

text \<open>
  The Newton iteration has no iteration cap, so the loop is a partial function: the
  outer \<open>None\<close> is a loop that never ends. The inner option is the returned number:
  \<open>Some (Some E)\<close> returns \<open>E\<close>, and \<open>Some None\<close> is the NaN that the source
  returns once the derivative \<open>df\<close> is zero (the quotient is not finite, and every later
  comparison with it is false). This is the iteration in exact arithmetic. It is used
  below for the circular orbit only, where the first step is exactly zero and doubles
  take the same single pass; for a positive eccentricity the rounding of each step
  decides whether the loop of the source ends.
\<close>

partial_function (option) solveKeplerLoop ::
  "real \<Rightarrow> real \<Rightarrow> real \<Rightarrow> real \<Rightarrow> real \<Rightarrow> real option option" where
  "solveKeplerLoop M e tolerance E deltaE =
     (if \<bar>deltaE\<bar> > tolerance then
        (let f = E - e * sin E - M;
             df = 1 - e * cos E
         in case jsDiv f df of
              None \<Rightarrow> Some None
            | Some deltaE' \<Rightarrow> solveKeplerLoop M e tolerance (E - deltaE') deltaE')
      else Some (Some E))"

definition solveKeplerEquation :: "real \<Rightarrow> real \<Rightarrow> real \<Rightarrow> real option option" where
  "solveKeplerEquation M e tolerance = solveKeplerLoop M e tolerance M 1"

text \<open>The default tolerance \<open>1e-6\<close>.\<close>

definition defaultTolerance :: real where
  "defaultTolerance = 1 / 1000000"

subsection \<open>Anomaly, position in the orbital plane, rotation to the ecliptic\<close>

definition calculateTrueAnomaly :: "real \<Rightarrow> real \<Rightarrow> real option" where
  "calculateTrueAnomaly E e =
     (case jsSqrt (1 + e) of
        None \<Rightarrow> None
      | Some s1 \<Rightarrow>
         (case jsSqrt (1 - e) of
            None \<Rightarrow> None
          | Some s2 \<Rightarrow> Some (2 * atan2 (s1 * sin (E / 2)) (s2 * cos (E / 2)))))"

definition calculateOrbitalPosition :: "OrbitalElements \<Rightarrow> real \<Rightarrow> (real \<times> real) option" where
  "calculateOrbitalPosition elements nu =
     (case jsDiv (el_a elements * (1 - (el_e elements)\<^sup>2)) (1 + el_e elements * cos nu) of
        None \<Rightarrow> None
      | Some r \<Rightarrow> Some (r * cos nu, r * sin nu))"

definition transformToEcliptic :: "real \<Rightarrow> real \<Rightarrow> OrbitalElements \<Rightarrow> vec3" where
  "transformToEcliptic x y elements =
     (let i = degToRad (el_i elements);
          omega = degToRad (el_omega elements);
          Omega = degToRad (el_Omega elements);
          cosOmega = cos omega;
          sinOmega = sin omega;
          cosI = cos i;
          sinI = sin i;
          cosCapOmega = cos Omega;
          sinCapOmega = sin Omega;
          X = (cosOmega * cosCapOmega - sinOmega * sinCapOmega * cosI) * x +
              (- sinOmega * cosCapOmega - cosOmega * sinCapOmega * cosI) * y;
          Y = (cosOmega * sinCapOmega + sinOmega * cosCapOmega * cosI) * x +
              (- sinOmega * sinCapOmega + cosOmega * cosCapOmega * cosI) * y;
          Z = (sinOmega * sinI) * x + (cosOmega * sinI) * y
      in (X, Y, Z))"

subsection \<open>createOrbitPath\<close>

text \<open>
  \<open>numPoints\<close> is a count, so a natural number. A point whose anomaly or radius is not
  a finite number (\<open>0 / 0\<close> when \<open>numPoints\<close> is 0, a zero denominator of the conic
  equation) is \<open>None\<close>.
\<close>

definition orbitPoint :: "real \<Rightarrow> real \<Rightarrow> nat \<Rightarrow> nat \<Rightarrow> vec3 option" where
  "orbitPoint a e numPoints i =
     (case jsDiv (real i) (real numPoints) of
        None \<Rightarrow> None
      | Some q \<Rightarrow>
         (let nu = q * 2 * pi
          in case jsDiv (a * (1 - e\<^sup>2)) (1 + e * cos nu) of
               None \<Rightarrow> None
             | Some r \<Rightarrow> Some (r * cos nu, 0, r * sin nu)))"

definition createOrbitPath :: "real \<Rightarrow> real \<Rightarrow> nat \<Rightarrow> vec3 option list" where
  "createOrbitPath a e numPoints = map (orbitPoint a e numPoints) [0..<numPoints + 1]"

subsection \<open>calculateSuccessProbability\<close>

text \<open>The score is computed with \<open>jsnum\<close> arithmetic: the velocity penalty can overflow.\<close>

definition calculateSuccessProbability ::
  "jsnum \<Rightarrow> jsnum \<Rightarrow> jsnum \<Rightarrow> PropulsionType \<Rightarrow> jsnum" where
  "calculateSuccessProbability distance speed fuel propulsion =
     (let baseSuccess = Fin 90;
          baseSuccess = jsSub baseSuccess (jsMin (jsDivide distance (Fin 1000000)) (Fin 50));
          optimalVelocity =
            Fin (if propulsion = chemical then 15 else if propulsion = ion then 8 else 25);
          velocityDiff = jsAbs (jsSub speed optimalVelocity);
          baseSuccess = jsSub baseSuccess (jsMul velocityDiff (Fin 2));
          baseSuccess = jsMul baseSuccess (jsDivide fuel (Fin 100))
      in jsMax (jsMin baseSuccess (Fin 95)) (Fin 5))"

text \<open>A circular orbit of radius 2, tilted against the ecliptic.\<close>

definition demoOrbit :: OrbitalElements where
  "demoOrbit = \<lparr>el_a = 2, el_e = 0, el_i = 30, el_omega = 45, el_Omega = 60,
     el_M0 = 0, el_epoch = 0\<rparr>"

section \<open>Scene composition: the path of the tracked object\<close>

text \<open>
  The state \<open>atlasElements\<close> of the component; its fields carry the prefix \<open>at_\<close>.
  The elements come from the backend unchecked, so a field is any \<open>jsnum\<close>, and the
  rotation into the scene is computed with \<open>jsnum\<close> arithmetic.
\<close>

record AtlasElements =
  at_a :: jsnum
  at_e :: jsnum
  at_i :: jsnum
  at_omega :: jsnum
  at_Omega :: jsnum
  at_M :: jsnum
  at_epoch :: jsnum

type_synonym jsvec3 = "jsnum \<times> jsnum \<times> jsnum"

definition scaleAU :: real where
  "scaleAU = 30"

definition verticalScale :: real where
  "verticalScale = 6"

definition mapToScene :: "jsnum \<Rightarrow> jsnum \<Rightarrow> jsnum \<Rightarrow> jsvec3" where
  "mapToScene x y z =
     (jsMul x (Fin scaleAU),
      jsMul (jsMul z (Fin scaleAU)) (Fin verticalScale),
      jsMul (jsNeg y) (Fin scaleAU))"

definition toScene :: "AtlasElements \<Rightarrow> jsnum \<Rightarrow> jsnum \<Rightarrow> jsvec3" where
  "toScene elements x_orb y_orb =
     (let i = jsDivide (jsMul (jsOrZero (at_i elements)) (Fin pi)) (Fin 180);
          omega = jsDivide (jsMul (jsOrZero (at_omega elements)) (Fin pi)) (Fin 180);
          Omega = jsDivide (jsMul (jsOrZero (at_Omega elements)) (Fin pi)) (Fin 180);
          cos_Omega = jsCos Omega;
          sin_Omega = jsSin Omega;
          cos_i = jsCos i;
          sin_i = jsSin i;
          cos_omega = jsCos omega;
          sin_omega = jsSin omega;
          x = jsAdd
                (jsMul (jsSub (jsMul cos_Omega cos_omega)
                              (jsMul (jsMul sin_Omega sin_omega) cos_i)) x_orb)
                (jsMul (jsSub (jsMul (jsNeg cos_Omega) sin_omega)
                              (jsMul (jsMul sin_Omega cos_omega) cos_i)) y_orb);
          y = jsAdd
                (jsMul (jsAdd (jsMul sin_Omega cos_omega)
                              (jsMul (jsMul cos_Omega sin_omega) cos_i)) x_orb)
                (jsMul (jsAdd (jsMul (jsNeg sin_Omega) sin_omega)
                              (jsMul (jsMul cos_Omega cos_omega) cos_i)) y_orb);
          z = jsAdd (jsMul (jsMul sin_i sin_omega) x_orb)
                    (jsMul (jsMul sin_i cos_omega) y_orb)
      in mapToScene x y z)"

subsection \<open>Sampling the parabola\<close>

text \<open>The constants of the effect: \<open>q\<close>, \<open>p\<close>, \<open>epsilon\<close>, \<open>minNu\<close>, \<open>maxNu\<close>,
  \<open>steps\<close> and \<open>maxRAU\<close>.\<close>

definition perihelionQ :: real where
  "perihelionQ = 3 / 10"

definition semiLatusP :: real where
  "semiLatusP = 2 * perihelionQ"

definition nuEpsilon :: real where
  "nuEpsilon = 1 / 100"

definition minNu :: real where
  "minNu = - pi + nuEpsilon"

definition maxNu :: real where
  "maxNu = pi - nuEpsilon"

definition pathSteps :: nat where
  "pathSteps = 2000"

definition maxRAU :: real where
  "maxRAU = 300"

definition sampleNu :: "nat \<Rightarrow> real" where
  "sampleNu s = minNu + (real s / real pathSteps) * (maxNu - minNu)"

text \<open>The radius of a sample: \<open>p / (1 + cos nu)\<close>, replaced by the cap when it is not a
  finite number or above the cap.\<close>

definition cappedRadius :: "real \<Rightarrow> real" where
  "cappedRadius nu =
     (case jsDiv semiLatusP (1 + cos nu) of
        None \<Rightarrow> maxRAU
      | Some r \<Rightarrow> if r > maxRAU then maxRAU else r)"

definition pathPoint :: "AtlasElements \<Rightarrow> nat \<Rightarrow> jsvec3" where
  "pathPoint elements s =
     (let nu = sampleNu s;
          r = cappedRadius nu;
          x_orb = jsMul (Fin r) (jsCos (Fin nu));
          y_orb = jsMul (Fin r) (jsSin (Fin nu))
      in toScene elements x_orb y_orb)"

definition pathPoints :: "AtlasElements \<Rightarrow> jsvec3 list" where
  "pathPoints elements = map (pathPoint elements) [0..<pathSteps + 1]"

subsection \<open>Splitting the path at the sample closest to the current position\<close>







text \<open>The orientation angles that keep the rotation finite: a finite number of
  magnitude up to \<open>1e307\<close>, or a missing one (read as 0).\<close>

fun angleInRange :: "jsnum \<Rightarrow> bool" where
  "angleInRange (Fin a) = (\<bar>a\<bar> \<le> 10 ^ 307)"
| "angleInRange NaN = True"
| "angleInRange PosInf = False"
| "angleInRange NegInf = False"

definition demoAtlas :: AtlasElements where
  "demoAtlas = \<lparr>at_a = Fin (- 1), at_e = Fin 6, at_i = Fin 175, at_omega = Fin 128,
     at_Omega = Fin 322, at_M = Fin 0, at_epoch = Fin 0\<rparr>"

text \<open>The same elements with an inclination of \<open>1e308\<close> degrees.\<close>

definition hugeAtlas :: AtlasElements where
  "hugeAtlas = demoAtlas\<lparr>at_i := Fin (10 ^ 308)\<rparr>"

section \<open>Data access client\<close>

text \<open>
  A thrown value: an \<open>Error\<close> object (is it a \<open>TypeError\<close>, its message, its \<open>status\<close>
  property when it has one) or a value that is not an instance of \<open>Error\<close> (with its
  \<open>status\<close> property when it has one; \<open>NonError None\<close> also stands for the
  \<open>undefined\<close> that \<open>lastError\<close> holds before the first failure).
\<close>

datatype thrown = JsError bool string "nat option" | NonError "nat option"

fun isTypeError :: "thrown \<Rightarrow> bool" where
  "isTypeError (JsError t m s) = t"
| "isTypeError (NonError s) = False"

fun isErrorObject :: "thrown \<Rightarrow> bool" where
  "isErrorObject (JsError t m s) = True"
| "isErrorObject (NonError s) = False"

fun messageOf :: "thrown \<Rightarrow> string" where
  "messageOf (JsError t m s) = m"
| "messageOf (NonError s) = []"

fun statusOf :: "thrown \<Rightarrow> nat option" where
  "statusOf (JsError t m s) = s"
| "statusOf (NonError s) = s"

text \<open>\<open>String.prototype.includes\<close>.\<close>

fun stringIncludes :: "string \<Rightarrow> string \<Rightarrow> bool" where
  "stringIncludes sub [] = (sub = [])"
| "stringIncludes sub (c # cs) = (take (length sub) (c # cs) = sub \<or> stringIncludes sub cs)"

text \<open>
  What one call of \<open>fetch\<close> does: it rejects with a thrown value, or it resolves with a
  response (status, status text, and what \<open>response.json()\<close> settles to: a rejection or
  the data). \<open>response.ok\<close> is a status from 200 to 299.
\<close>

datatype 'a fetchOutcome = Rejected thrown | Response nat string "thrown + 'a"

definition responseOk :: "nat \<Rightarrow> bool" where
  "responseOk st = (200 \<le> st \<and> st \<le> 299)"

definition maxRetries :: nat where
  "maxRetries = 3"

definition baseDelay :: nat where
  "baseDelay = 1000"

definition maxDelay :: nat where
  "maxDelay = 10000"

definition getRetryDelay :: "nat \<Rightarrow> nat" where
  "getRetryDelay attempt = (let delay = baseDelay * 2 ^ attempt in min delay maxDelay)"

definition isRetryableError :: "thrown \<Rightarrow> bool" where
  "isRetryableError err =
     (if isTypeError err \<and> stringIncludes ''fetch'' (messageOf err) then True
      else if (case statusOf err of None \<Rightarrow> False | Some st \<Rightarrow> st \<ge> 500 \<and> st < 600) then True
      else if statusOf err = Some 429 then True
      else False)"

text \<open>
  The body of the \<open>try\<close> block: either the function returns (the promise of
  \<open>response.json()\<close>, returned without \<open>await\<close>, so its rejection leaves
  \<open>apiRequest\<close> without passing the \<open>catch\<close>), or the \<open>catch\<close> block receives a thrown
  value.
\<close>

datatype 'a attempt = Returned "thrown + 'a" | Caught thrown

definition attemptOnce :: "'a fetchOutcome \<Rightarrow> 'a attempt" where
  "attemptOnce outcome =
     (case outcome of
        Rejected err \<Rightarrow> Caught err
      | Response st stText body \<Rightarrow>
          if \<not> responseOk st
          then Caught (JsError False
                 (''API request failed: '' @ natToString st @ '' '' @ stText) (Some st))
          else Returned body)"

text \<open>
  The retry loop, over the outcome of the fetch of each attempt. It returns what
  \<open>apiRequest\<close> settles to (\<open>Inl\<close> a thrown value, \<open>Inr\<close> the data) and the delays it
  slept, in order.
\<close>

function apiRequestLoop ::
  "(nat \<Rightarrow> 'a fetchOutcome) \<Rightarrow> nat \<Rightarrow> thrown \<Rightarrow> nat list \<Rightarrow> (thrown + 'a) \<times> nat list" where
  "apiRequestLoop fetch attempt lastError delays =
     (if attempt \<le> maxRetries then
        (case attemptOnce (fetch attempt) of
           Returned r \<Rightarrow> (r, delays)
         | Caught err \<Rightarrow>
             if attempt = maxRetries \<or> \<not> isRetryableError err then (Inl err, delays)
             else apiRequestLoop fetch (attempt + 1) err (delays @ [getRetryDelay attempt]))
      else (Inl lastError, delays))"
  by pat_completeness auto
termination
  by (relation "measure (\<lambda>(fetch, attempt, lastError, delays). maxRetries + 1 - attempt)") auto

declare apiRequestLoop.simps [simp del]

definition apiRequest :: "(nat \<Rightarrow> 'a fetchOutcome) \<Rightarrow> (thrown + 'a) \<times> nat list" where
  "apiRequest fetch = apiRequestLoop fetch 0 (NonError None) []"

record 'a ApiResponse =
  success :: bool
  data :: "'a option"
  error :: "string option"
  timestamp :: int

text \<open>\<open>ApiClient.request\<close>, with the clock as a parameter.\<close>

definition request :: "(nat \<Rightarrow> 'a fetchOutcome) \<Rightarrow> int \<Rightarrow> 'a ApiResponse" where
  "request fetch now =
     (case fst (apiRequest fetch) of
        Inr d \<Rightarrow> \<lparr>success = True, data = Some d, error = None, timestamp = now\<rparr>
      | Inl err \<Rightarrow>
          \<lparr>success = False, data = None,
           error = Some (if isErrorObject err then messageOf err else ''Unknown error''),
           timestamp = now\<rparr>)"

text \<open>A server that answers 503 twice, then 404.\<close>

definition flakyServer :: "nat \<Rightarrow> unit fetchOutcome" where
  "flakyServer k =
     (if k < 2 then Response 503 ''Service Unavailable'' (Inr ())
      else Response 404 ''Not Found'' (Inr ()))"

section \<open>Verified properties\<close>

subsection \<open>Mission state store\<close>

text \<open>The day thresholds of the Start transition, on integer milliseconds.\<close>

lemma days_less_one:
  "(\<bar>real_of_int k\<bar> < 86400000) = (\<bar>k\<bar> < 86400000)"
proof -
  have "\<bar>real_of_int k\<bar> = real_of_int \<bar>k\<bar>" by simp
  moreover have "(real_of_int \<bar>k\<bar> < 86400000) = (\<bar>k\<bar> < 86400000)"
    using of_int_less_iff [of "\<bar>k\<bar>" 86400000, where 'a = real] by simp
  ultimately show ?thesis by simp
qed

lemma days_more_thirty:
  "(2592000000 < \<bar>real_of_int k\<bar>) = (2592000000 < \<bar>k\<bar>)"
proof -
  have "\<bar>real_of_int k\<bar> = real_of_int \<bar>k\<bar>" by simp
  moreover have "(real_of_int \<bar>k\<bar> > 2592000000) = (\<bar>k\<bar> > 2592000000)"
    using of_int_less_iff [of 2592000000 "\<bar>k\<bar>", where 'a = real] by simp
  ultimately show ?thesis by simp
qed

text \<open>
  Claim C1. From any prior state and for every configuration, the Start transition yields
  a running simulation with elapsed time 0 (stamped with the clock), and a mission status
  with phase LAUNCH, fuel 100, mission-elapsed \<open>00:00:00\<close> and a success probability of
  75 plus the propulsion bonus (nuclear 15, ion 10, chemical 5), plus 10 when the launch
  window is less than one day from now or minus 15 when it is more than thirty days from
  now (neither when the launch window does not parse), minus 2 per payload item, clamped
  to the band from 60 to 95.
\<close>

theorem start_simulation_status:
  "isRunning (simulationState (missionReducer env state START_SIMULATION)) \<and>
   elapsedTime (simulationState (missionReducer env state START_SIMULATION)) = 0 \<and>
   currentTime (simulationState (missionReducer env state START_SIMULATION)) = dateNowStamp env \<and>
   (\<exists>st. missionStatus (missionReducer env state START_SIMULATION) = Some st \<and>
      phase st = LAUNCH \<and> fuelRemaining st = Some 100 \<and>
      missionElapsed st = Some ''00:00:00'' \<and>
      successProbability st = Some (real_of_int (max 60 (min 95
        (75
         + (case propulsionType (missionConfig state) of
              nuclear \<Rightarrow> 15 | ion \<Rightarrow> 10 | chemical \<Rightarrow> 5)
         + (case getTime env (launchWindow (missionConfig state)) of
              None \<Rightarrow> 0
            | Some t \<Rightarrow> if \<bar>t - dateNow env\<bar> < 86400000 then 10
                        else if \<bar>t - dateNow env\<bar> > 30 * 86400000 then - 15 else 0)
         - 2 * int (length (payload (missionConfig state))))))))"
  by (cases "propulsionType (missionConfig state)";
      cases "getTime env (launchWindow (missionConfig state))")
     (simp_all add: Let_def days_less_one days_more_thirty mult.commute
        del: of_int_diff of_int_abs)

theorem start_simulation_status_witness:
  "missionStatus (missionReducer demoEnv demoState START_SIMULATION) =
     Some \<lparr>phase = LAUNCH, timeToIntercept = Some ''01:00:00'',
       distanceToTarget = Some 137500000, velocity = Some 16250, fuelRemaining = Some 100,
       successProbability = Some 91, missionElapsed = Some ''00:00:00''\<rparr>"
  using start_simulation_status [of demoEnv demoState]
  apply (simp add: demoEnv_def demoState_def demoConfig_def Let_def)
  apply code_simp
  done

text \<open>
  Claim C6. The Pause transition sets the running flag to false and leaves every other
  field as it was: elapsed time, current time, time acceleration, the configuration, the
  status, the trajectory and the mission data.
\<close>

theorem pause_simulation_frame:
  "isRunning (simulationState (missionReducer env state PAUSE_SIMULATION)) = False \<and>
   elapsedTime (simulationState (missionReducer env state PAUSE_SIMULATION)) =
     elapsedTime (simulationState state) \<and>
   currentTime (simulationState (missionReducer env state PAUSE_SIMULATION)) =
     currentTime (simulationState state) \<and>
   timeAcceleration (simulationState (missionReducer env state PAUSE_SIMULATION)) =
     timeAcceleration (simulationState state) \<and>
   missionConfig (missionReducer env state PAUSE_SIMULATION) = missionConfig state \<and>
   missionStatus (missionReducer env state PAUSE_SIMULATION) = missionStatus state \<and>
   interceptorTrajectory (missionReducer env state PAUSE_SIMULATION) =
     interceptorTrajectory state \<and>
   missionData (missionReducer env state PAUSE_SIMULATION) = missionData state \<and>
   missionReducer env state PAUSE_SIMULATION =
     state\<lparr>simulationState := (simulationState state)\<lparr>isRunning := False\<rparr>\<rparr>"
  by simp

theorem pause_simulation_frame_witness:
  "missionReducer demoEnv demoState PAUSE_SIMULATION =
     \<lparr>missionConfig = demoConfig, missionStatus = Some demoStatus,
      simulationState = \<lparr>isRunning = False, currentTime = 1000, timeAcceleration = 1,
        elapsedTime = 7\<rparr>,
      interceptorTrajectory = None, missionData = None\<rparr>"
  using pause_simulation_frame [of demoEnv demoState]
  by (simp add: demoState_def)

text \<open>
  Claim C10. A telemetry tick of a running simulation with a mission status produces a
  status whose velocity, distance to target and remaining fuel are all present and
  non-negative, whatever the prior status and the random draws were.
\<close>

theorem tick_nonnegative:
  assumes "isRunning (simulationState state)" and "missionStatus state = Some st"
  shows "\<exists>st' v d f. missionStatus (simulationTick env state) = Some st' \<and>
           velocity st' = Some v \<and> 0 \<le> v \<and>
           distanceToTarget st' = Some d \<and> 0 \<le> d \<and>
           fuelRemaining st' = Some f \<and> 0 \<le> f"
  using assms by (simp add: simulationTick_def updatedStatus_def Let_def)

theorem tick_nonnegative_witness:
  "isRunning (simulationState demoState) \<and> missionStatus demoState = Some demoStatus \<and>
   (\<exists>st'. missionStatus (simulationTick demoEnv demoState) = Some st' \<and>
      velocity st' = Some 0 \<and> distanceToTarget st' = Some 0 \<and> fuelRemaining st' = Some 0)"
proof -
  have r: "isRunning (simulationState demoState)" and s: "missionStatus demoState = Some demoStatus"
    by (simp_all add: demoState_def)
  from tick_nonnegative [OF r s, of demoEnv] r s show ?thesis
    by (simp add: simulationTick_def updatedStatus_def Let_def demoState_def demoStatus_def
        demoEnv_def orZero_def)
qed

subsection \<open>Numbers that overflow\<close>

lemma overflowThreshold_large: "2 * 10 ^ 308 - 30 \<ge> overflowThreshold \<and> 10 ^ 308 < overflowThreshold"
  by (simp add: overflowThreshold_def)

lemma fromReal_Fin: "\<bar>r\<bar> < overflowThreshold \<Longrightarrow> fromReal r = Fin r"
  by (simp add: fromReal_def abs_less_iff)

lemma fromReal_bounded:
  assumes "\<bar>r\<bar> \<le> k" and "k < overflowThreshold"
  shows "fromReal r = Fin r"
  using assms by (intro fromReal_Fin) simp

text \<open>Clamping to the band from 5 to 95 absorbs an overflow of the product.\<close>

lemma clamp_fromReal:
  "jsMax (jsMin (fromReal r) (Fin 95)) (Fin 5) = Fin (max (min r 95) 5)"
proof -
  have big: "95 < overflowThreshold" by (simp add: overflowThreshold_def)
  consider "overflowThreshold \<le> r" | "r \<le> - overflowThreshold"
    | "\<not> overflowThreshold \<le> r" "\<not> r \<le> - overflowThreshold" by blast
  then show ?thesis
  proof cases
    case 1
    then show ?thesis using big by (simp add: fromReal_def)
  next
    case 2
    then have "\<not> overflowThreshold \<le> r" using big by simp
    with 2 show ?thesis using big by (simp add: fromReal_def)
  next
    case 3
    then show ?thesis by (simp add: fromReal_def)
  qed
qed



subsection \<open>Orbital mechanics library\<close>

text \<open>The rotation of \<open>transformToEcliptic\<close> keeps the Euclidean norm.\<close>

lemma rotation_preserves_norm:
  fixes cw sw ci si cO sO x y :: real
  assumes "cw\<^sup>2 + sw\<^sup>2 = 1" and "ci\<^sup>2 + si\<^sup>2 = 1" and "cO\<^sup>2 + sO\<^sup>2 = 1"
  shows "((cw * cO - sw * sO * ci) * x + (- sw * cO - cw * sO * ci) * y)\<^sup>2 +
         ((cw * sO + sw * cO * ci) * x + (- sw * sO + cw * cO * ci) * y)\<^sup>2 +
         ((sw * si) * x + (cw * si) * y)\<^sup>2 = x\<^sup>2 + y\<^sup>2"
  using assms by algebra

lemma cos_sin_squares: "(cos (t::real))\<^sup>2 + (sin t)\<^sup>2 = 1"
  by (simp add: add.commute)

lemma transformToEcliptic_norm:
  assumes "transformToEcliptic x y elements = (X, Y, Z)"
  shows "X\<^sup>2 + Y\<^sup>2 + Z\<^sup>2 = x\<^sup>2 + y\<^sup>2"
proof -
  have "X = (cos (degToRad (el_omega elements)) * cos (degToRad (el_Omega elements)) -
             sin (degToRad (el_omega elements)) * sin (degToRad (el_Omega elements)) *
               cos (degToRad (el_i elements))) * x +
            (- sin (degToRad (el_omega elements)) * cos (degToRad (el_Omega elements)) -
             cos (degToRad (el_omega elements)) * sin (degToRad (el_Omega elements)) *
               cos (degToRad (el_i elements))) * y"
    and "Y = (cos (degToRad (el_omega elements)) * sin (degToRad (el_Omega elements)) +
             sin (degToRad (el_omega elements)) * cos (degToRad (el_Omega elements)) *
               cos (degToRad (el_i elements))) * x +
            (- sin (degToRad (el_omega elements)) * sin (degToRad (el_Omega elements)) +
             cos (degToRad (el_omega elements)) * cos (degToRad (el_Omega elements)) *
               cos (degToRad (el_i elements))) * y"
    and "Z = (sin (degToRad (el_omega elements)) * sin (degToRad (el_i elements))) * x +
             (cos (degToRad (el_omega elements)) * sin (degToRad (el_i elements))) * y"
    using assms by (simp_all add: transformToEcliptic_def Let_def)
  then show ?thesis
    using rotation_preserves_norm [OF cos_sin_squares [of "degToRad (el_omega elements)"]
        cos_sin_squares [of "degToRad (el_i elements)"]
        cos_sin_squares [of "degToRad (el_Omega elements)"], of x y]
    by simp
qed

lemma solveKepler_circular: "solveKeplerEquation M 0 defaultTolerance = Some (Some M)"
  unfolding solveKeplerEquation_def
  apply (subst solveKeplerLoop.simps)
  apply (simp add: defaultTolerance_def jsDiv_def)
  apply (subst solveKeplerLoop.simps)
  apply simp
  done

text \<open>
  Claim C7. For a circular orbit (eccentricity 0) of semi-major axis \<open>a\<close>, a length and
  so not negative, and for every mean anomaly \<open>M\<close>: the Kepler solver returns, the true
  anomaly and the position in the orbital plane are finite numbers, and the point that
  \<open>transformToEcliptic\<close> gives lies at Euclidean distance \<open>a\<close> from the origin, whatever
  the three orientation angles are.
\<close>

theorem circular_orbit_radius:
  assumes "el_e elements = 0" and "0 \<le> el_a elements"
  shows "\<exists>E nu x y X Y Z.
           solveKeplerEquation M (el_e elements) defaultTolerance = Some (Some E) \<and>
           calculateTrueAnomaly E (el_e elements) = Some nu \<and>
           calculateOrbitalPosition elements nu = Some (x, y) \<and>
           transformToEcliptic x y elements = (X, Y, Z) \<and>
           sqrt (X\<^sup>2 + Y\<^sup>2 + Z\<^sup>2) = el_a elements"
proof -
  define nu where "nu = 2 * atan2 (sin (M / 2)) (cos (M / 2))"
  define x where "x = el_a elements * cos nu"
  define y where "y = el_a elements * sin nu"
  obtain X Y Z where t: "transformToEcliptic x y elements = (X, Y, Z)"
    by (cases "transformToEcliptic x y elements") auto
  have k: "solveKeplerEquation M (el_e elements) defaultTolerance = Some (Some M)"
    using assms(1) solveKepler_circular by simp
  have a: "calculateTrueAnomaly M (el_e elements) = Some nu"
    using assms(1) by (simp add: calculateTrueAnomaly_def jsSqrt_def nu_def)
  have p: "calculateOrbitalPosition elements nu = Some (x, y)"
    using assms(1) by (simp add: calculateOrbitalPosition_def jsDiv_def x_def y_def)
  have "x\<^sup>2 + y\<^sup>2 = (el_a elements)\<^sup>2 * ((cos nu)\<^sup>2 + (sin nu)\<^sup>2)"
    by (simp only: x_def y_def power_mult_distrib distrib_left)
  then have "x\<^sup>2 + y\<^sup>2 = (el_a elements)\<^sup>2"
    by (simp only: cos_sin_squares mult_1_right)
  then have "sqrt (X\<^sup>2 + Y\<^sup>2 + Z\<^sup>2) = el_a elements"
    using transformToEcliptic_norm [OF t] assms(2) by simp
  with k a p t show ?thesis by blast
qed

theorem circular_orbit_radius_witness:
  "el_e demoOrbit = 0 \<and> 0 \<le> el_a demoOrbit \<and>
   (\<exists>E nu x y X Y Z.
      solveKeplerEquation (pi / 3) 0 defaultTolerance = Some (Some E) \<and>
      calculateTrueAnomaly E 0 = Some nu \<and>
      calculateOrbitalPosition demoOrbit nu = Some (x, y) \<and>
      transformToEcliptic x y demoOrbit = (X, Y, Z) \<and>
      sqrt (X\<^sup>2 + Y\<^sup>2 + Z\<^sup>2) = 2)"
proof -
  have e: "el_e demoOrbit = 0" and a: "0 \<le> el_a demoOrbit"
    by (simp_all add: demoOrbit_def)
  have v: "el_a demoOrbit = 2" by (simp add: demoOrbit_def)
  from circular_orbit_radius [OF e a, of "pi / 3"] show ?thesis
    unfolding e v using e a by simp
qed

lemma sin_three_half_pi: "sin (3 * pi / 2) = (- 1::real)"
proof -
  have "sin (3 * pi / 2) = sin (pi + pi / 2)" by (simp add: field_simps)
  also have "\<dots> = sin pi * cos (pi / 2) + cos pi * sin (pi / 2)" by (rule sin_add)
  also have "\<dots> = - 1" by simp
  finally show ?thesis .
qed

lemma cos_three_half_pi: "cos (3 * pi / 2) = (0::real)"
proof -
  have "cos (3 * pi / 2) = cos (pi + pi / 2)" by (simp add: field_simps)
  also have "\<dots> = cos pi * cos (pi / 2) - sin pi * sin (pi / 2)" by (rule cos_add)
  also have "\<dots> = 0" by simp
  finally show ?thesis .
qed

lemma orbitPoint_first:
  assumes "0 < numPoints" and "1 + e \<noteq> 0"
  shows "orbitPoint a e numPoints 0 = Some (a * (1 - e\<^sup>2) / (1 + e), 0, 0)"
  using assms by (simp add: orbitPoint_def jsDiv_def)

lemma orbitPoint_last:
  assumes "0 < numPoints" and "1 + e \<noteq> 0"
  shows "orbitPoint a e numPoints numPoints = Some (a * (1 - e\<^sup>2) / (1 + e), 0, 0)"
  using assms by (simp add: orbitPoint_def jsDiv_def)

lemma createOrbitPath_length: "length (createOrbitPath a e numPoints) = numPoints + 1"
  by (simp add: createOrbitPath_def)

lemma createOrbitPath_nth:
  assumes "i \<le> numPoints"
  shows "createOrbitPath a e numPoints ! i = orbitPoint a e numPoints i"
proof -
  have l: "i < length [0..<numPoints + 1]" using assms by simp
  have "createOrbitPath a e numPoints ! i = orbitPoint a e numPoints ([0..<numPoints + 1] ! i)"
    unfolding createOrbitPath_def using l by (rule nth_map)
  also have "[0..<numPoints + 1] ! i = 0 + i"
    by (rule nth_upt) (use assms in simp)
  finally show ?thesis by simp
qed

lemma createOrbitPath_square:
  "createOrbitPath 1 0 4 =
     [Some (1, 0, 0), Some (0, 0, 1), Some (- 1, 0, 0), Some (0, 0, - 1), Some (1, 0, 0)]"
proof -
  have u: "[0..<4 + 1] = [0, 1, 2, 3, 4::nat]" by (simp add: upt_rec)
  show ?thesis
    unfolding createOrbitPath_def u
    by (simp add: orbitPoint_def jsDiv_def Let_def sin_three_half_pi cos_three_half_pi)
qed

text \<open>
  Claim C8. \<open>createOrbitPath\<close> with \<open>a = 1\<close>, \<open>e = 0\<close> and 4 points returns exactly 5
  points, the unit circle of the plane sampled at the quarter turns, point 0 and point 4
  coincident. In general, for a positive number of points and \<open>e\<close> other than \<open>-1\<close>
  (where the conic equation divides by zero at the first and the last sample), the path
  has \<open>numPoints + 1\<close> entries, entry \<open>i\<close> is the sample at the fraction
  \<open>i / numPoints\<close> of the full turn, and the first and the last entry are the same point.
\<close>

theorem createOrbitPath_closed_loop:
  assumes "0 < numPoints" and "1 + e \<noteq> 0"
  shows "createOrbitPath 1 0 4 =
           [Some (1, 0, 0), Some (0, 0, 1), Some (- 1, 0, 0), Some (0, 0, - 1), Some (1, 0, 0)] \<and>
         length (createOrbitPath a e numPoints) = numPoints + 1 \<and>
         (\<forall>i. i \<le> numPoints \<longrightarrow>
              createOrbitPath a e numPoints ! i = orbitPoint a e numPoints i) \<and>
         createOrbitPath a e numPoints ! 0 = Some (a * (1 - e\<^sup>2) / (1 + e), 0, 0) \<and>
         createOrbitPath a e numPoints ! numPoints = createOrbitPath a e numPoints ! 0"
  using assms createOrbitPath_square
  by (simp add: createOrbitPath_length createOrbitPath_nth orbitPoint_first orbitPoint_last)

theorem createOrbitPath_closed_loop_witness:
  "(0::nat) < 4 \<and> 1 + (0::real) \<noteq> 0 \<and>
   length (createOrbitPath 1 0 4) = 5 \<and>
   createOrbitPath 1 0 4 ! 0 = Some (1, 0, 0) \<and>
   createOrbitPath 1 0 4 ! 4 = createOrbitPath 1 0 4 ! 0"
  using createOrbitPath_closed_loop [of 4 0 1] by simp

subsection \<open>calculateSuccessProbability\<close>

lemma maxValue_upper: "maxValue < 2 * 10 ^ 308"
  by (simp add: maxValue_def)

text \<open>
  For finite inputs and a velocity of magnitude up to \<open>10^307\<close> no step before the
  product with the fuel fraction overflows, and the clamp absorbs an overflow of that
  product: the result is the clamped real score.
\<close>

lemma calculateSuccessProbability_value:
  assumes d: "\<bar>d\<bar> \<le> maxValue" and v: "\<bar>v\<bar> \<le> 10 ^ 307" and f: "\<bar>f\<bar> \<le> maxValue"
  shows "calculateSuccessProbability (Fin d) (Fin v) (Fin f) p =
           Fin (max (min ((90 - min (d / 1000000) 50
                 - \<bar>v - (if p = chemical then 15 else if p = ion then 8 else 25)\<bar> * 2)
               * (f / 100)) 95) 5)"
proof -
  define opt :: real where "opt = (if p = chemical then 15 else if p = ion then 8 else 25)"
  define m where "m = min (d / 1000000) 50"
  define vd where "vd = \<bar>v - opt\<bar>"
  have thr: "10 ^ 308 < overflowThreshold" using overflowThreshold_large by simp
  have dq: "\<bar>d / 1000000\<bar> \<le> 2 * 10 ^ 302"
    using d maxValue_upper by simp
  have s1: "jsDivide (Fin d) (Fin 1000000) = Fin (d / 1000000)"
    using fromReal_bounded [OF dq] thr by simp
  have mb: "\<bar>m\<bar> \<le> 2 * 10 ^ 302"
    using dq unfolding m_def by (simp add: min_def abs_le_iff)
  have s3: "jsSub (Fin 90) (Fin m) = Fin (90 - m)"
  proof -
    have "\<bar>90 - m\<bar> \<le> 10 ^ 303" using mb by (simp add: abs_le_iff)
    from fromReal_bounded [OF this] thr show ?thesis by (simp add: jsSub_def)
  qed
  have optb: "0 \<le> opt" "opt \<le> 25" by (simp_all add: opt_def)
  have s4: "jsSub (Fin v) (Fin opt) = Fin (v - opt)"
  proof -
    have "\<bar>v - opt\<bar> \<le> 2 * 10 ^ 307" using v optb by (simp add: abs_le_iff)
    from fromReal_bounded [OF this] thr show ?thesis by (simp add: jsSub_def)
  qed
  have vdb: "\<bar>vd * 2\<bar> \<le> 3 * 10 ^ 307"
    using v optb unfolding vd_def by (simp add: abs_le_iff)
  have s5: "fromReal (vd * 2) = Fin (vd * 2)"
    using fromReal_bounded [OF vdb] thr by simp
  have s6: "jsSub (Fin (90 - m)) (Fin (vd * 2)) = Fin (90 - m - vd * 2)"
  proof -
    have "\<bar>90 - m - vd * 2\<bar> \<le> 10 ^ 308" using mb vdb by (simp add: abs_le_iff)
    from fromReal_bounded [OF this] thr show ?thesis by (simp add: jsSub_def)
  qed
  have s7: "jsDivide (Fin f) (Fin 100) = Fin (f / 100)"
  proof -
    have "\<bar>f / 100\<bar> \<le> 10 ^ 308" using f maxValue_upper by simp
    from fromReal_bounded [OF this] thr show ?thesis by simp
  qed
  have "calculateSuccessProbability (Fin d) (Fin v) (Fin f) p =
          jsMax (jsMin (fromReal ((90 - m - vd * 2) * (f / 100))) (Fin 95)) (Fin 5)"
    by (simp only: calculateSuccessProbability_def Let_def opt_def [symmetric] s1
        jsMin.simps m_def [symmetric] s3 s4 jsAbs.simps vd_def [symmetric] s5 s6 s7
        jsMul.simps)
  then show ?thesis
    unfolding clamp_fromReal m_def vd_def opt_def .
qed

text \<open>
  Claim C3, as amended. For all finite inputs whose velocity has a magnitude of at most
  \<open>1e307\<close> the result of \<open>calculateSuccessProbability\<close> is a number between 5 and 95.
  For such inputs and a remaining fuel that is not negative, the result does not increase
  as the distance grows, and it does not decrease as the remaining fuel grows.
\<close>

theorem calculateSuccessProbability_bounds_monotone:
  assumes "\<bar>d\<bar> \<le> maxValue" and "\<bar>d1\<bar> \<le> maxValue" and "\<bar>d2\<bar> \<le> maxValue"
    and "\<bar>f\<bar> \<le> maxValue" and "\<bar>f1\<bar> \<le> maxValue" and "\<bar>f2\<bar> \<le> maxValue"
    and "\<bar>v\<bar> \<le> 10 ^ 307"
    and "0 \<le> f1" and "f1 \<le> f2" and "d1 \<le> d2"
  shows "(\<exists>r. calculateSuccessProbability (Fin d) (Fin v) (Fin f) p = Fin r \<and>
            5 \<le> r \<and> r \<le> 95) \<and>
         (\<exists>r1 r2. calculateSuccessProbability (Fin d1) (Fin v) (Fin f1) p = Fin r1 \<and>
            calculateSuccessProbability (Fin d2) (Fin v) (Fin f1) p = Fin r2 \<and> r2 \<le> r1) \<and>
         (\<exists>r1 r2. calculateSuccessProbability (Fin d) (Fin v) (Fin f1) p = Fin r1 \<and>
            calculateSuccessProbability (Fin d) (Fin v) (Fin f2) p = Fin r2 \<and> r1 \<le> r2)"
proof -
  define opt :: real where
    "opt = (if p = chemical then 15 else if p = ion then 8 else 25)"
  define base where "base = (\<lambda>x::real. 90 - min (x / 1000000) 50 - \<bar>v - opt\<bar> * 2)"
  define score where "score = (\<lambda>x g. max (min (base x * (g / 100)) 95) (5::real))"
  have csp: "calculateSuccessProbability (Fin x) (Fin v) (Fin g) p = Fin (score x g)"
    if "\<bar>x\<bar> \<le> maxValue" and "\<bar>g\<bar> \<le> maxValue" for x g
    using calculateSuccessProbability_value [OF that(1) assms(7) that(2), of p]
    by (simp add: score_def base_def opt_def)
  have range: "5 \<le> score d f \<and> score d f \<le> 95" by (simp add: score_def)
  have "base d2 \<le> base d1"
    using assms(10) by (simp add: base_def min_def)
  then have "base d2 * (f1 / 100) \<le> base d1 * (f1 / 100)"
    using assms(8) by (intro mult_right_mono) simp_all
  then have dist: "score d2 f1 \<le> score d1 f1"
    by (simp add: score_def max_def min_def)
  have fuel: "score d f1 \<le> score d f2"
  proof (cases "0 \<le> base d")
    case True
    then have "base d * (f1 / 100) \<le> base d * (f2 / 100)"
      using assms(9) by (intro mult_left_mono) simp_all
    then show ?thesis by (simp add: score_def max_def min_def)
  next
    case False
    then have "base d * (f1 / 100) \<le> 0" and "base d * (f2 / 100) \<le> 0"
      using assms(8,9) by (simp_all add: mult_le_0_iff)
    then show ?thesis by (simp add: score_def max_def min_def)
  qed
  from range dist fuel
    csp [OF assms(1) assms(4)] csp [OF assms(2) assms(5)] csp [OF assms(3) assms(5)]
    csp [OF assms(1) assms(5)] csp [OF assms(1) assms(6)]
  show ?thesis by blast
qed

lemma maxValue_at_least: "20000000 \<le> maxValue"
  by (simp add: maxValue_def)

theorem calculateSuccessProbability_bounds_monotone_witness:
  "calculateSuccessProbability (Fin 20000000) (Fin 15) (Fin 50) chemical = Fin 35 \<and>
   calculateSuccessProbability (Fin 0) (Fin 15) (Fin 50) chemical = Fin 45 \<and>
   calculateSuccessProbability (Fin 0) (Fin 15) (Fin 100) chemical = Fin 90"
proof -
  have b: "\<bar>0::real\<bar> \<le> maxValue" "\<bar>20000000::real\<bar> \<le> maxValue"
    "\<bar>50::real\<bar> \<le> maxValue" "\<bar>100::real\<bar> \<le> maxValue"
    using maxValue_at_least by simp_all
  have v: "\<bar>15::real\<bar> \<le> 10 ^ 307" by simp
  from calculateSuccessProbability_bounds_monotone
    [OF b(1) b(1) b(2) b(3) b(3) b(4) v, of chemical]
    calculateSuccessProbability_value [OF b(2) v b(3), of chemical]
    calculateSuccessProbability_value [OF b(1) v b(3), of chemical]
    calculateSuccessProbability_value [OF b(1) v b(4), of chemical]
  show ?thesis by simp
qed

theorem calculateSuccessProbability_counterexample:
  "calculateSuccessProbability (Fin 0) (Fin (10 ^ 308)) (Fin 0) chemical = NaN \<and>
   calculateSuccessProbability (Fin 0) (Fin 65) (Fin (- 100)) chemical = Fin 10 \<and>
   calculateSuccessProbability (Fin 50000000) (Fin 65) (Fin (- 100)) chemical = Fin 60 \<and>
   calculateSuccessProbability (Fin 0) (Fin 65) (Fin 0) chemical = Fin 5"
proof -
  have b: "\<bar>0::real\<bar> \<le> maxValue" "\<bar>50000000::real\<bar> \<le> maxValue"
    "\<bar>- 100::real\<bar> \<le> maxValue"
    by (simp_all add: maxValue_def)
  have v: "\<bar>65::real\<bar> \<le> 10 ^ 307" by simp
  have nan: "calculateSuccessProbability (Fin 0) (Fin (10 ^ 308)) (Fin 0) chemical = NaN"
    by (simp add: calculateSuccessProbability_def Let_def jsSub_def fromReal_def
        overflowThreshold_def infTimes_def)
  from nan
    calculateSuccessProbability_value [OF b(1) v b(3), of chemical]
    calculateSuccessProbability_value [OF b(2) v b(3), of chemical]
    calculateSuccessProbability_value [OF b(1) v b(1), of chemical]
  show ?thesis by simp
qed


subsection \<open>Scene composition\<close>












subsection \<open>Scene composition: the parabolic path\<close>

text \<open>NaN absorbs every operand.\<close>

lemma jsAdd_NaN: "jsAdd x NaN = NaN" "jsAdd NaN x = NaN"
  by (cases x; simp)+

lemma jsMul_NaN: "jsMul x NaN = NaN" "jsMul NaN x = NaN"
  by (cases x; simp)+

lemma jsSub_NaN: "jsSub x NaN = NaN" "jsSub NaN x = NaN"
  by (simp_all add: jsSub_def jsAdd_NaN)

text \<open>Sums and products of numbers far below the overflow threshold stay finite.\<close>

lemma fromReal_small: "\<bar>r\<bar> \<le> 10 ^ 6 \<Longrightarrow> fromReal r = Fin r"
proof -
  assume "\<bar>r\<bar> \<le> 10 ^ 6"
  moreover have "(10::real) ^ 6 < overflowThreshold" by (simp add: overflowThreshold_def)
  ultimately show ?thesis by (rule fromReal_bounded)
qed

lemma unit_product:
  fixes p q :: real
  assumes "\<bar>p\<bar> \<le> 1" and "\<bar>q\<bar> \<le> 1"
  shows "\<bar>p * q\<bar> \<le> 1"
  unfolding abs_mult using assms by (intro mult_le_one) simp_all

lemma coefficient_difference:
  fixes p q r s t :: real
  assumes "\<bar>p\<bar> \<le> 1" and "\<bar>q\<bar> \<le> 1" and "\<bar>r\<bar> \<le> 1" and "\<bar>s\<bar> \<le> 1" and "\<bar>t\<bar> \<le> 1"
  shows "jsSub (jsMul (Fin p) (Fin q)) (jsMul (jsMul (Fin r) (Fin s)) (Fin t))
           = Fin (p * q - r * s * t)"
    and "\<bar>p * q - r * s * t\<bar> \<le> 2"
proof -
  have a: "\<bar>p * q\<bar> \<le> 1" using assms(1,2) by (rule unit_product)
  have b: "\<bar>r * s\<bar> \<le> 1" using assms(3,4) by (rule unit_product)
  have c: "\<bar>r * s * t\<bar> \<le> 1" using b assms(5) by (rule unit_product)
  show d: "\<bar>p * q - r * s * t\<bar> \<le> 2" using a c by (simp add: abs_le_iff)
  have "fromReal (p * q) = Fin (p * q)" "fromReal (r * s) = Fin (r * s)"
    "fromReal (r * s * t) = Fin (r * s * t)"
    "fromReal (p * q - r * s * t) = Fin (p * q - r * s * t)"
    using a b c d by (simp_all add: fromReal_small)
  then show "jsSub (jsMul (Fin p) (Fin q)) (jsMul (jsMul (Fin r) (Fin s)) (Fin t))
           = Fin (p * q - r * s * t)"
    by (simp add: jsSub_def)
qed

lemma coefficient_sum:
  fixes p q r s t :: real
  assumes "\<bar>p\<bar> \<le> 1" and "\<bar>q\<bar> \<le> 1" and "\<bar>r\<bar> \<le> 1" and "\<bar>s\<bar> \<le> 1" and "\<bar>t\<bar> \<le> 1"
  shows "jsAdd (jsMul (Fin p) (Fin q)) (jsMul (jsMul (Fin r) (Fin s)) (Fin t))
           = Fin (p * q + r * s * t)"
    and "\<bar>p * q + r * s * t\<bar> \<le> 2"
proof -
  have a: "\<bar>p * q\<bar> \<le> 1" using assms(1,2) by (rule unit_product)
  have b: "\<bar>r * s\<bar> \<le> 1" using assms(3,4) by (rule unit_product)
  have c: "\<bar>r * s * t\<bar> \<le> 1" using b assms(5) by (rule unit_product)
  show d: "\<bar>p * q + r * s * t\<bar> \<le> 2" using a c by (simp add: abs_le_iff)
  have "fromReal (p * q) = Fin (p * q)" "fromReal (r * s) = Fin (r * s)"
    "fromReal (r * s * t) = Fin (r * s * t)"
    "fromReal (p * q + r * s * t) = Fin (p * q + r * s * t)"
    using a b c d by (simp_all add: fromReal_small)
  then show "jsAdd (jsMul (Fin p) (Fin q)) (jsMul (jsMul (Fin r) (Fin s)) (Fin t))
           = Fin (p * q + r * s * t)"
    by simp
qed

lemma coefficient_product:
  fixes p q :: real
  assumes "\<bar>p\<bar> \<le> 1" and "\<bar>q\<bar> \<le> 1"
  shows "jsMul (Fin p) (Fin q) = Fin (p * q)" and "\<bar>p * q\<bar> \<le> 2"
proof -
  have a: "\<bar>p * q\<bar> \<le> 1" using assms by (rule unit_product)
  then show "\<bar>p * q\<bar> \<le> 2" by simp
  show "jsMul (Fin p) (Fin q) = Fin (p * q)" using a by (simp add: fromReal_small)
qed

lemma scaled_bound:
  fixes c x :: real
  assumes "\<bar>c\<bar> \<le> k" and "\<bar>x\<bar> \<le> m"
  shows "\<bar>c * x\<bar> \<le> k * m"
  unfolding abs_mult using assms by (intro mult_mono) simp_all

lemma row_sum:
  fixes c1 c2 x y :: real
  assumes "\<bar>c1\<bar> \<le> 2" and "\<bar>c2\<bar> \<le> 2" and "\<bar>x\<bar> \<le> 300" and "\<bar>y\<bar> \<le> 300"
  shows "jsAdd (jsMul (Fin c1) (Fin x)) (jsMul (Fin c2) (Fin y)) = Fin (c1 * x + c2 * y)"
    and "\<bar>c1 * x + c2 * y\<bar> \<le> 1200"
proof -
  have a: "\<bar>c1 * x\<bar> \<le> 2 * 300" using assms(1,3) by (rule scaled_bound)
  have b: "\<bar>c2 * y\<bar> \<le> 2 * 300" using assms(2,4) by (rule scaled_bound)
  show c: "\<bar>c1 * x + c2 * y\<bar> \<le> 1200" using a b by (simp add: abs_le_iff)
  have "fromReal (c1 * x) = Fin (c1 * x)" "fromReal (c2 * y) = Fin (c2 * y)"
    "fromReal (c1 * x + c2 * y) = Fin (c1 * x + c2 * y)"
    using a b c by (simp_all add: fromReal_small)
  then show "jsAdd (jsMul (Fin c1) (Fin x)) (jsMul (Fin c2) (Fin y)) = Fin (c1 * x + c2 * y)"
    by simp
qed

lemma mapToScene_finite:
  assumes "\<bar>X\<bar> \<le> 1200" and "\<bar>Y\<bar> \<le> 1200" and "\<bar>Z\<bar> \<le> 1200"
  shows "mapToScene (Fin X) (Fin Y) (Fin Z) = (Fin (X * 30), Fin (Z * 30 * 6), Fin (- Y * 30))"
proof -
  have a: "\<bar>X * 30\<bar> \<le> 1200 * 30" using assms(1) by (intro scaled_bound) simp_all
  have b: "\<bar>Z * 30\<bar> \<le> 1200 * 30" using assms(3) by (intro scaled_bound) simp_all
  then have c: "\<bar>Z * 30 * 6\<bar> \<le> 1200 * 30 * 6" by (intro scaled_bound) simp_all
  have d: "\<bar>- Y * 30\<bar> \<le> 1200 * 30" using assms(2) by (intro scaled_bound) simp_all
  have "fromReal (X * 30) = Fin (X * 30)" "fromReal (Z * 30) = Fin (Z * 30)"
    "fromReal (Z * 30 * 6) = Fin (Z * 30 * 6)" "fromReal (- Y * 30) = Fin (- Y * 30)"
    using a b c d by (simp_all add: fromReal_small)
  then show ?thesis
    by (simp add: mapToScene_def scaleAU_def verticalScale_def del: mult_minus_left)
qed

text \<open>An orientation angle in range has a finite value in radians.\<close>

lemma angle_radians:
  assumes "angleInRange a"
  shows "\<exists>t. jsDivide (jsMul (jsOrZero a) (Fin pi)) (Fin 180) = Fin t"
proof -
  have thr: "(10::real) ^ 308 < overflowThreshold" using overflowThreshold_large by simp
  have fin: "jsDivide (jsMul (Fin x) (Fin pi)) (Fin 180) = Fin (x * pi / 180)"
    if "\<bar>x\<bar> \<le> 10 ^ 307" for x :: real
  proof -
    have "\<bar>x * pi\<bar> \<le> 10 ^ 307 * 4"
      using that pi_less_4 by (intro scaled_bound) simp_all
    then have p: "\<bar>x * pi\<bar> \<le> 10 ^ 308" by simp
    then have q: "\<bar>x * pi / 180\<bar> \<le> 10 ^ 308" by simp
    have "fromReal (x * pi) = Fin (x * pi)" "fromReal (x * pi / 180) = Fin (x * pi / 180)"
      using fromReal_bounded [OF p thr] fromReal_bounded [OF q thr] by simp_all
    then show ?thesis by simp
  qed
  show ?thesis
  proof (cases a)
    case (Fin x)
    with assms have b: "\<bar>x\<bar> \<le> 10 ^ 307" by simp
    have o: "jsOrZero a = Fin x" using Fin by simp
    show ?thesis unfolding o using fin [OF b] by blast
  next
    case NaN
    have b: "\<bar>0::real\<bar> \<le> 10 ^ 307" by simp
    have o: "jsOrZero a = Fin 0" using NaN by simp
    show ?thesis unfolding o using fin [OF b] by blast
  next
    case PosInf
    with assms show ?thesis by simp
  next
    case NegInf
    with assms show ?thesis by simp
  qed
qed


text \<open>The rotation of \<open>toScene\<close>, before the scaling to scene units, keeps the norm.\<close>

lemma scene_rotation_preserves_norm:
  fixes cw sw ci si cO sO x y :: real
  assumes "cw\<^sup>2 + sw\<^sup>2 = 1" and "ci\<^sup>2 + si\<^sup>2 = 1" and "cO\<^sup>2 + sO\<^sup>2 = 1"
  shows "((cO * cw - sO * sw * ci) * x + (- cO * sw - sO * cw * ci) * y)\<^sup>2 +
         ((sO * cw + cO * sw * ci) * x + (- sO * sw + cO * cw * ci) * y)\<^sup>2 +
         ((si * sw) * x + (si * cw) * y)\<^sup>2 = x\<^sup>2 + y\<^sup>2"
  using assms by algebra

lemma abs_le_of_squares:
  fixes u v w r :: real
  assumes "u\<^sup>2 + v\<^sup>2 + w\<^sup>2 = r\<^sup>2" and "0 \<le> r"
  shows "\<bar>u\<bar> \<le> r" and "\<bar>v\<bar> \<le> r" and "\<bar>w\<bar> \<le> r"
proof -
  have "u\<^sup>2 \<le> r\<^sup>2" and "v\<^sup>2 \<le> r\<^sup>2" and "w\<^sup>2 \<le> r\<^sup>2"
    using assms(1) zero_le_power2 [of u] zero_le_power2 [of v] zero_le_power2 [of w]
    by linarith+
  then show "\<bar>u\<bar> \<le> r" and "\<bar>v\<bar> \<le> r" and "\<bar>w\<bar> \<le> r"
    using assms(2) by (simp_all add: power2_le_iff_abs_le)
qed


text \<open>
  With the three orientation angles in range, the rotation of a point of the orbital
  plane within 300 AU overflows nowhere, so the scene point is the rotated and scaled
  real point.
\<close>

lemma toScene_finite:
  assumes ai: "angleInRange (at_i elements)" and aw: "angleInRange (at_omega elements)"
    and aO: "angleInRange (at_Omega elements)"
    and n: "x_orb\<^sup>2 + y_orb\<^sup>2 = r\<^sup>2" and r0: "0 \<le> r" and r3: "r \<le> 300"
  shows "\<exists>x y z. toScene elements (Fin x_orb) (Fin y_orb) = (Fin x, Fin y, Fin z) \<and>
           \<bar>x\<bar> \<le> 30 * r \<and> \<bar>y\<bar> \<le> 180 * r \<and> \<bar>z\<bar> \<le> 30 * r"
proof -
  obtain ti where ti: "jsDivide (jsMul (jsOrZero (at_i elements)) (Fin pi)) (Fin 180) = Fin ti"
    using angle_radians [OF ai] by blast
  obtain tw where tw: "jsDivide (jsMul (jsOrZero (at_omega elements)) (Fin pi)) (Fin 180) = Fin tw"
    using angle_radians [OF aw] by blast
  obtain tO where tO: "jsDivide (jsMul (jsOrZero (at_Omega elements)) (Fin pi)) (Fin 180) = Fin tO"
    using angle_radians [OF aO] by blast
  have "x_orb\<^sup>2 + y_orb\<^sup>2 + 0\<^sup>2 = r\<^sup>2" using n by simp
  from abs_le_of_squares(1,2) [OF this r0] r3
  have xb: "\<bar>x_orb\<bar> \<le> 300" and yb: "\<bar>y_orb\<bar> \<le> 300" by simp_all
  have c: "\<bar>cos t\<bar> \<le> 1" and s: "\<bar>sin t\<bar> \<le> 1"
    and mc: "\<bar>- cos t\<bar> \<le> 1" and ms: "\<bar>- sin t\<bar> \<le> 1" for t :: real
    by simp_all
  note c11 = coefficient_difference [OF c [of tO] c [of tw] s [of tO] s [of tw] c [of ti]]
  note c12 = coefficient_difference [OF mc [of tO] s [of tw] s [of tO] c [of tw] c [of ti]]
  note c21 = coefficient_sum [OF s [of tO] c [of tw] c [of tO] s [of tw] c [of ti]]
  note c22 = coefficient_sum [OF ms [of tO] s [of tw] c [of tO] c [of tw] c [of ti]]
  note c31 = coefficient_product [OF s [of ti] s [of tw]]
  note c32 = coefficient_product [OF s [of ti] c [of tw]]
  note row1 = row_sum [OF c11(2) c12(2) xb yb]
  note row2 = row_sum [OF c21(2) c22(2) xb yb]
  note row3 = row_sum [OF c31(2) c32(2) xb yb]
  define X where "X = (cos tO * cos tw - sin tO * sin tw * cos ti) * x_orb +
                      (- cos tO * sin tw - sin tO * cos tw * cos ti) * y_orb"
  define Y where "Y = (sin tO * cos tw + cos tO * sin tw * cos ti) * x_orb +
                      (- sin tO * sin tw + cos tO * cos tw * cos ti) * y_orb"
  define Z where "Z = (sin ti * sin tw) * x_orb + (sin ti * cos tw) * y_orb"
  have "toScene elements (Fin x_orb) (Fin y_orb) = mapToScene (Fin X) (Fin Y) (Fin Z)"
    by (simp only: toScene_def Let_def ti tw tO jsCos.simps jsSin.simps jsNeg.simps
        c11(1) c12(1) c21(1) c22(1) c31(1) c32(1) row1(1) row2(1) row3(1) X_def Y_def Z_def)
  also have "\<dots> = (Fin (X * 30), Fin (Z * 30 * 6), Fin (- Y * 30))"
    using row1(2) row2(2) row3(2) unfolding X_def [symmetric] Y_def [symmetric] Z_def [symmetric]
    by (rule mapToScene_finite)
  finally have t: "toScene elements (Fin x_orb) (Fin y_orb) =
      (Fin (X * 30), Fin (Z * 30 * 6), Fin (- Y * 30))" .
  have "X\<^sup>2 + Y\<^sup>2 + Z\<^sup>2 = x_orb\<^sup>2 + y_orb\<^sup>2"
    unfolding X_def Y_def Z_def
    by (rule scene_rotation_preserves_norm) (simp_all add: add.commute)
  then have "X\<^sup>2 + Y\<^sup>2 + Z\<^sup>2 = r\<^sup>2" using n by simp
  from abs_le_of_squares [OF this r0]
  have "\<bar>X * 30\<bar> \<le> 30 * r" and "\<bar>Z * 30 * 6\<bar> \<le> 180 * r" and "\<bar>- Y * 30\<bar> \<le> 30 * r"
    by (simp_all add: abs_mult)
  with t show ?thesis by blast
qed

lemma cappedRadius_bounds: "3 / 10 \<le> cappedRadius nu \<and> cappedRadius nu \<le> 300"
proof (cases "1 + cos nu = 0")
  case True
  then show ?thesis by (simp add: cappedRadius_def jsDiv_def maxRAU_def)
next
  case False
  have "0 \<le> 1 + cos nu" using cos_ge_minus_one [of nu] by linarith
  with False have pos: "0 < 1 + cos nu" by simp
  have "1 + cos nu \<le> 2" using cos_le_one [of nu] by linarith
  then have "3 / 10 * (1 + cos nu) \<le> 6 / 10" by simp
  then have "3 / 10 \<le> (6 / 10) / (1 + cos nu)"
    using pos by (simp add: pos_le_divide_eq)
  then show ?thesis
    using False
    by (simp add: cappedRadius_def jsDiv_def maxRAU_def semiLatusP_def perihelionQ_def)
qed

lemma cos_gt_minus_one:
  fixes nu :: real
  assumes "- pi < nu" and "nu < pi"
  shows "- 1 < cos nu"
proof (cases "0 \<le> nu")
  case True
  then have "cos pi < cos nu" using assms(2) by (intro cos_monotone_0_pi) simp_all
  then show ?thesis by simp
next
  case False
  then have "cos (- pi) < cos nu" using assms(1) by (intro cos_monotone_minus_pi_0) simp_all
  then show ?thesis by simp
qed

lemma sampleNu_range:
  assumes "s \<le> pathSteps"
  shows "- pi < sampleNu s" and "sampleNu s < pi"
proof -
  define t where "t = real s / real pathSteps"
  have t: "0 \<le> t" "t \<le> 1" using assms by (simp_all add: t_def pathSteps_def)
  have w: "0 \<le> maxNu - minNu"
    using pi_ge_two by (simp add: maxNu_def minNu_def nuEpsilon_def)
  have "0 \<le> t * (maxNu - minNu)" using t(1) w by simp
  moreover have "t * (maxNu - minNu) \<le> 1 * (maxNu - minNu)"
    using t(2) w by (rule mult_right_mono)
  ultimately have "minNu \<le> sampleNu s" and "sampleNu s \<le> maxNu"
    by (simp_all add: sampleNu_def t_def)
  then show "- pi < sampleNu s" and "sampleNu s < pi"
    by (simp_all add: maxNu_def minNu_def nuEpsilon_def)
qed

lemma pathPoints_nth:
  assumes "s \<le> pathSteps"
  shows "pathPoints elements ! s = pathPoint elements s"
proof -
  have l: "s < length [0..<pathSteps + 1]" using assms by simp
  have "pathPoints elements ! s = pathPoint elements ([0..<pathSteps + 1] ! s)"
    unfolding pathPoints_def using l by (rule nth_map)
  also have "[0..<pathSteps + 1] ! s = 0 + s"
    by (rule nth_upt) (use assms in simp)
  finally show ?thesis by simp
qed


lemma pathPoint_rotation:
  "pathPoint elements s =
     toScene elements (Fin (cappedRadius (sampleNu s) * cos (sampleNu s)))
       (Fin (cappedRadius (sampleNu s) * sin (sampleNu s)))"
proof -
  define nu where "nu = sampleNu s"
  define r where "r = cappedRadius nu"
  have rb: "\<bar>r\<bar> \<le> 300" using cappedRadius_bounds [of nu] by (simp add: r_def abs_le_iff)
  have "\<bar>r * cos nu\<bar> \<le> 300 * 1" and "\<bar>r * sin nu\<bar> \<le> 300 * 1"
    using rb by (intro scaled_bound; simp)+
  then have "fromReal (r * cos nu) = Fin (r * cos nu)"
    and "fromReal (r * sin nu) = Fin (r * sin nu)"
    by (simp_all add: fromReal_small)
  then show ?thesis
    by (simp add: pathPoint_def Let_def nu_def [symmetric] r_def [symmetric])
qed

text \<open>
  Claim C9, as amended. The parabolic path has 2001 samples (steps 0 to 2000). At every
  sample the denominator \<open>1 + cos nu\<close> is not zero, the radius is the smaller of
  \<open>p / (1 + cos nu)\<close> and the cap, so between 0.3 and 300 AU, and the emitted point is
  the rotation of the point of the orbital plane at that radius; for any anomaly at all,
  a radius that is not finite or above the cap is replaced by the cap. When the
  inclination, the argument of periapsis and the longitude of the ascending node are
  each missing or a finite number of magnitude up to \<open>1e307\<close>, every coordinate of the
  emitted point is a finite number (bounded by 9000, 54000 and 9000 scene units).
\<close>

theorem parabolic_path_radius_capped:
  assumes "s \<le> pathSteps"
    and "angleInRange (at_i elements)" and "angleInRange (at_omega elements)"
    and "angleInRange (at_Omega elements)"
  shows "length (pathPoints elements) = 2001 \<and>
         pathPoints elements ! s = pathPoint elements s \<and>
         1 + cos (sampleNu s) \<noteq> 0 \<and>
         cappedRadius (sampleNu s) = min (semiLatusP / (1 + cos (sampleNu s))) maxRAU \<and>
         (\<forall>nu. 3 / 10 \<le> cappedRadius nu \<and> cappedRadius nu \<le> 300 \<and>
               (1 + cos nu = 0 \<longrightarrow> cappedRadius nu = 300)) \<and>
         pathPoint elements s =
           toScene elements (Fin (cappedRadius (sampleNu s) * cos (sampleNu s)))
             (Fin (cappedRadius (sampleNu s) * sin (sampleNu s))) \<and>
         (\<exists>x y z. pathPoint elements s = (Fin x, Fin y, Fin z) \<and>
            \<bar>x\<bar> \<le> 9000 \<and> \<bar>y\<bar> \<le> 54000 \<and> \<bar>z\<bar> \<le> 9000)"
proof -
  define nu where "nu = sampleNu s"
  define r where "r = cappedRadius nu"
  have len: "length (pathPoints elements) = 2001"
    by (simp add: pathPoints_def pathSteps_def)
  have nz: "1 + cos nu \<noteq> 0"
    using cos_gt_minus_one [OF sampleNu_range [OF assms(1)]] by (simp add: nu_def)
  then have cap: "r = min (semiLatusP / (1 + cos nu)) maxRAU"
    by (simp add: r_def cappedRadius_def jsDiv_def min_def)
  have rb: "3 / 10 \<le> r" "r \<le> 300" using cappedRadius_bounds [of nu] by (simp_all add: r_def)
  have "(r * cos nu)\<^sup>2 + (r * sin nu)\<^sup>2 = r\<^sup>2 * ((cos nu)\<^sup>2 + (sin nu)\<^sup>2)"
    by (simp only: power_mult_distrib distrib_left)
  then have sq: "(r * cos nu)\<^sup>2 + (r * sin nu)\<^sup>2 = r\<^sup>2"
    by (simp add: add.commute)
  have r0: "0 \<le> r" using rb(1) by simp
  from toScene_finite [OF assms(2-4) sq r0 rb(2)]
  obtain x y z where
    p: "toScene elements (Fin (r * cos nu)) (Fin (r * sin nu)) = (Fin x, Fin y, Fin z)"
    and b: "\<bar>x\<bar> \<le> 30 * r" "\<bar>y\<bar> \<le> 180 * r" "\<bar>z\<bar> \<le> 30 * r"
    by blast
  have rot: "pathPoint elements s = toScene elements (Fin (r * cos nu)) (Fin (r * sin nu))"
    unfolding r_def nu_def by (rule pathPoint_rotation)
  with p have "pathPoint elements s = (Fin x, Fin y, Fin z)" by simp
  moreover have "\<bar>x\<bar> \<le> 9000" "\<bar>y\<bar> \<le> 54000" "\<bar>z\<bar> \<le> 9000"
    using b rb(2) by simp_all
  ultimately have pt: "\<exists>x y z. pathPoint elements s = (Fin x, Fin y, Fin z) \<and>
            \<bar>x\<bar> \<le> 9000 \<and> \<bar>y\<bar> \<le> 54000 \<and> \<bar>z\<bar> \<le> 9000"
    by blast
  have all: "\<forall>nu. 3 / 10 \<le> cappedRadius nu \<and> cappedRadius nu \<le> 300 \<and>
               (1 + cos nu = 0 \<longrightarrow> cappedRadius nu = 300)"
    using cappedRadius_bounds by (simp add: cappedRadius_def jsDiv_def maxRAU_def)
  from len pathPoints_nth [OF assms(1)] nz cap all rot pt show ?thesis
    unfolding nu_def r_def by blast
qed

lemma sampleNu_middle: "sampleNu 1000 = 0"
  by (simp add: sampleNu_def pathSteps_def minNu_def maxNu_def nuEpsilon_def diff_divide_distrib)


theorem parabolic_path_radius_capped_witness:
  "(1000::nat) \<le> pathSteps \<and> angleInRange (at_i demoAtlas) \<and>
   angleInRange (at_omega demoAtlas) \<and> angleInRange (at_Omega demoAtlas) \<and>
   cappedRadius (sampleNu 1000) = 3 / 10 \<and> cappedRadius pi = 300 \<and>
   (\<exists>x y z. pathPoints demoAtlas ! 1000 = (Fin x, Fin y, Fin z) \<and>
      \<bar>x\<bar> \<le> 9000 \<and> \<bar>y\<bar> \<le> 54000 \<and> \<bar>z\<bar> \<le> 9000)"
proof -
  have s: "(1000::nat) \<le> pathSteps" by (simp add: pathSteps_def)
  have a: "angleInRange (at_i demoAtlas)" "angleInRange (at_omega demoAtlas)"
    "angleInRange (at_Omega demoAtlas)"
    by (simp_all add: demoAtlas_def)
  have c1: "cappedRadius pi = 300"
    by (simp add: cappedRadius_def jsDiv_def maxRAU_def)
  have c2: "cappedRadius (sampleNu 1000) = 3 / 10"
    by (simp add: sampleNu_middle cappedRadius_def jsDiv_def maxRAU_def semiLatusP_def
        perihelionQ_def)
  from parabolic_path_radius_capped [OF s a]
  have n: "pathPoints demoAtlas ! 1000 = pathPoint demoAtlas 1000"
    and e: "\<exists>x y z. pathPoint demoAtlas 1000 = (Fin x, Fin y, Fin z) \<and>
      \<bar>x\<bar> \<le> 9000 \<and> \<bar>y\<bar> \<le> 54000 \<and> \<bar>z\<bar> \<le> 9000"
    by blast+
  from e have "\<exists>x y z. pathPoints demoAtlas ! 1000 = (Fin x, Fin y, Fin z) \<and>
      \<bar>x\<bar> \<le> 9000 \<and> \<bar>y\<bar> \<le> 54000 \<and> \<bar>z\<bar> \<le> 9000"
    unfolding n .
  with s a c1 c2 show ?thesis by blast
qed

text \<open>An inclination of \<open>1e308\<close> degrees overflows on the way to radians.\<close>

lemma huge_inclination_radians:
  "jsDivide (jsMul (jsOrZero (Fin (10 ^ 308))) (Fin pi)) (Fin 180) = PosInf"
proof -
  have "overflowThreshold \<le> 10 ^ 308 * 2" using overflowThreshold_large by simp
  also have "\<dots> \<le> 10 ^ 308 * pi" using pi_ge_two by (intro mult_left_mono) simp_all
  finally have "fromReal (10 ^ 308 * pi) = PosInf" by (simp add: fromReal_def)
  then show ?thesis by simp
qed

theorem parabolic_path_nan_counterexample:
  "at_i hugeAtlas = Fin (10 ^ 308) \<and>
   pathPoint hugeAtlas 1000 = (NaN, NaN, NaN) \<and>
   pathPoints hugeAtlas ! 1000 = (NaN, NaN, NaN)"
proof -
  have s: "(1000::nat) \<le> pathSteps" by (simp add: pathSteps_def)
  have i: "at_i hugeAtlas = Fin (10 ^ 308)" by (simp add: hugeAtlas_def)
  have "toScene hugeAtlas x_orb y_orb = (NaN, NaN, NaN)" for x_orb y_orb
    by (simp only: toScene_def Let_def i huge_inclination_radians jsCos.simps jsSin.simps
        jsMul_NaN jsSub_NaN jsAdd_NaN mapToScene_def jsNeg.simps)
  then have "pathPoint hugeAtlas 1000 = (NaN, NaN, NaN)"
    by (simp only: pathPoint_rotation)
  with i pathPoints_nth [OF s, of hugeAtlas] show ?thesis by simp
qed


subsection \<open>Data access client\<close>

text \<open>
  The loop from attempt \<open>attempt\<close> on ends at some attempt \<open>m\<close>: every attempt before
  \<open>m\<close> failed with a retryable error and was followed by its delay, and attempt \<open>m\<close>
  decides the result.
\<close>

lemma apiRequestLoop_trace:
  assumes "attempt \<le> maxRetries"
  shows "\<exists>m. attempt \<le> m \<and> m \<le> maxRetries \<and>
           snd (apiRequestLoop fetch attempt lastError delays) =
             delays @ map getRetryDelay [attempt..<m] \<and>
           (\<forall>k. attempt \<le> k \<and> k < m \<longrightarrow>
              (\<exists>err. attemptOnce (fetch k) = Caught err \<and> isRetryableError err)) \<and>
           (case attemptOnce (fetch m) of
              Returned r \<Rightarrow> fst (apiRequestLoop fetch attempt lastError delays) = r
            | Caught err \<Rightarrow>
                fst (apiRequestLoop fetch attempt lastError delays) = Inl err \<and>
                (m = maxRetries \<or> \<not> isRetryableError err))"
  using assms
proof (induction fetch attempt lastError delays rule: apiRequestLoop.induct)
  case (1 fetch attempt lastError delays)
  show ?case
  proof (cases "attemptOnce (fetch attempt)")
    case (Returned r)
    then have "apiRequestLoop fetch attempt lastError delays = (r, delays)"
      using "1.prems" by (subst apiRequestLoop.simps) simp
    with Returned "1.prems" show ?thesis
      by (intro exI [of _ attempt]) auto
  next
    case (Caught err)
    show ?thesis
    proof (cases "attempt = maxRetries \<or> \<not> isRetryableError err")
      case True
      then have "apiRequestLoop fetch attempt lastError delays = (Inl err, delays)"
        using "1.prems" Caught by (subst apiRequestLoop.simps) simp
      with Caught True "1.prems" show ?thesis
        by (intro exI [of _ attempt]) auto
    next
      case False
      then have lt: "attempt + 1 \<le> maxRetries" using "1.prems" by simp
      have step: "apiRequestLoop fetch attempt lastError delays =
          apiRequestLoop fetch (attempt + 1) err (delays @ [getRetryDelay attempt])"
        using "1.prems" Caught False by (subst apiRequestLoop.simps) simp
      from "1.IH" [OF "1.prems" Caught False lt]
      obtain m where m: "attempt + 1 \<le> m" "m \<le> maxRetries"
        "snd (apiRequestLoop fetch (attempt + 1) err (delays @ [getRetryDelay attempt])) =
           (delays @ [getRetryDelay attempt]) @ map getRetryDelay [attempt + 1..<m]"
        "\<forall>k. attempt + 1 \<le> k \<and> k < m \<longrightarrow>
              (\<exists>err. attemptOnce (fetch k) = Caught err \<and> isRetryableError err)"
        "case attemptOnce (fetch m) of
              Returned r \<Rightarrow>
                fst (apiRequestLoop fetch (attempt + 1) err (delays @ [getRetryDelay attempt])) = r
            | Caught e \<Rightarrow>
                fst (apiRequestLoop fetch (attempt + 1) err (delays @ [getRetryDelay attempt]))
                  = Inl e \<and>
                (m = maxRetries \<or> \<not> isRetryableError e)"
        by blast
      have u: "[attempt..<m] = attempt # [attempt + 1..<m]"
        using m(1) by (simp add: upt_conv_Cons)
      have a: "\<forall>k. attempt \<le> k \<and> k < m \<longrightarrow>
              (\<exists>err. attemptOnce (fetch k) = Caught err \<and> isRetryableError err)"
      proof (intro allI impI)
        fix k assume k: "attempt \<le> k \<and> k < m"
        show "\<exists>err. attemptOnce (fetch k) = Caught err \<and> isRetryableError err"
        proof (cases "k = attempt")
          case True
          with Caught False show ?thesis by auto
        next
          case False
          with k have "attempt + 1 \<le> k \<and> k < m" by simp
          with m(4) show ?thesis by blast
        qed
      qed
      show ?thesis
        apply (rule exI [of _ m])
        unfolding step
        using m(1,2,3,5) a u by simp
    qed
  qed
qed

lemma getRetryDelay_formula: "getRetryDelay attempt = min (1000 * 2 ^ attempt) 10000"
  by (simp add: getRetryDelay_def baseDelay_def maxDelay_def Let_def)

lemma isRetryableError_iff:
  "isRetryableError err =
     ((isTypeError err \<and> stringIncludes ''fetch'' (messageOf err)) \<or>
      (\<exists>st. statusOf err = Some st \<and> (500 \<le> st \<and> st < 600 \<or> st = 429)))"
  by (cases "statusOf err") (auto simp: isRetryableError_def)

lemma request_failure:
  "fst (apiRequest fetch) = Inl err \<Longrightarrow>
   request fetch now = \<lparr>success = False, data = None,
     error = Some (if isErrorObject err then messageOf err else ''Unknown error''),
     timestamp = now\<rparr>"
  by (simp add: request_def)

text \<open>
  Claim C5. For every behaviour of the network, \<open>apiRequest\<close> makes \<open>m + 1\<close> attempts
  with \<open>m\<close> at most 3, and sleeps \<open>min(1000 * 2^k, 10000)\<close> ms after attempt \<open>k\<close> for
  each \<open>k\<close> below \<open>m\<close>. Every attempt that was retried had failed with a network failure
  (a \<open>TypeError\<close> whose message mentions \<open>fetch\<close>), a status from 500 to 599, or status
  429. The failure of the last attempt is the result, and it is either the fourth attempt
  or a failure of another kind; so a first response with a 4xx status other than 429 is
  not retried. Whenever \<open>apiRequest\<close> fails, \<open>request\<close> returns an envelope with
  \<open>success = false\<close> and an error message, and it reports success only with the data.
\<close>

theorem api_request_retry_policy:
  "\<exists>m. m \<le> 3 \<and>
     snd (apiRequest fetch) = map getRetryDelay [0..<m] \<and>
     (\<forall>k. getRetryDelay k = min (1000 * 2 ^ k) 10000) \<and>
     (\<forall>k<m. \<exists>err. attemptOnce (fetch k) = Caught err \<and>
        ((isTypeError err \<and> stringIncludes ''fetch'' (messageOf err)) \<or>
         (\<exists>st. statusOf err = Some st \<and> (500 \<le> st \<and> st < 600 \<or> st = 429)))) \<and>
     (\<forall>err. attemptOnce (fetch m) = Caught err \<longrightarrow>
        fst (apiRequest fetch) = Inl err \<and>
        (m = 3 \<or>
         \<not> ((isTypeError err \<and> stringIncludes ''fetch'' (messageOf err)) \<or>
            (\<exists>st. statusOf err = Some st \<and> (500 \<le> st \<and> st < 600 \<or> st = 429))))) \<and>
     (\<forall>r. attemptOnce (fetch m) = Returned r \<longrightarrow> fst (apiRequest fetch) = r) \<and>
     (\<forall>st statusText body. fetch 0 = Response st statusText body \<and> 400 \<le> st \<and> st < 500 \<and> st \<noteq> 429 \<longrightarrow>
        m = 0 \<and> snd (apiRequest fetch) = []) \<and>
     (\<forall>err. fst (apiRequest fetch) = Inl err \<longrightarrow>
        success (request fetch now) = False \<and>
        data (request fetch now) = None \<and>
        error (request fetch now) =
          Some (if isErrorObject err then messageOf err else ''Unknown error'')) \<and>
     (success (request fetch now) = (\<exists>d. fst (apiRequest fetch) = Inr d))"
proof -
  have "0 \<le> maxRetries" by simp
  from apiRequestLoop_trace [OF this, of fetch "NonError None" "[]"]
  obtain m where m: "m \<le> maxRetries"
    and ds: "snd (apiRequest fetch) = map getRetryDelay [0..<m]"
    and retried: "\<forall>k. k < m \<longrightarrow>
              (\<exists>err. attemptOnce (fetch k) = Caught err \<and> isRetryableError err)"
    and final: "case attemptOnce (fetch m) of
              Returned r \<Rightarrow> fst (apiRequest fetch) = r
            | Caught err \<Rightarrow> fst (apiRequest fetch) = Inl err \<and>
                (m = maxRetries \<or> \<not> isRetryableError err)"
    unfolding apiRequest_def by auto
  have m3: "m \<le> 3" using m by (simp add: maxRetries_def)
  have c1: "\<forall>k<m. \<exists>err. attemptOnce (fetch k) = Caught err \<and>
        ((isTypeError err \<and> stringIncludes ''fetch'' (messageOf err)) \<or>
         (\<exists>st. statusOf err = Some st \<and> (500 \<le> st \<and> st < 600 \<or> st = 429)))"
    using retried unfolding isRetryableError_iff by blast
  have c2: "\<forall>err. attemptOnce (fetch m) = Caught err \<longrightarrow>
        fst (apiRequest fetch) = Inl err \<and>
        (m = 3 \<or>
         \<not> ((isTypeError err \<and> stringIncludes ''fetch'' (messageOf err)) \<or>
            (\<exists>st. statusOf err = Some st \<and> (500 \<le> st \<and> st < 600 \<or> st = 429))))"
    using final unfolding isRetryableError_iff [symmetric] by (auto simp: maxRetries_def)
  have c3: "\<forall>r. attemptOnce (fetch m) = Returned r \<longrightarrow> fst (apiRequest fetch) = r"
    using final by auto
  have c4: "\<forall>st statusText body. fetch 0 = Response st statusText body \<and> 400 \<le> st \<and> st < 500 \<and> st \<noteq> 429 \<longrightarrow>
        m = 0 \<and> snd (apiRequest fetch) = []"
  proof (intro allI impI)
    fix st statusText body
    assume h: "fetch 0 = Response st statusText body \<and> 400 \<le> st \<and> st < 500 \<and> st \<noteq> 429"
    then have a: "attemptOnce (fetch 0) = Caught (JsError False
                 (''API request failed: '' @ natToString st @ '' '' @ statusText) (Some st))"
      by (simp add: attemptOnce_def responseOk_def)
    have "\<not> isRetryableError (JsError False
                 (''API request failed: '' @ natToString st @ '' '' @ statusText) (Some st))"
      using h by (simp add: isRetryableError_def)
    with a retried have "m = 0" by (cases "0 < m") auto
    with ds show "m = 0 \<and> snd (apiRequest fetch) = []" by simp
  qed
  have c5: "\<forall>err. fst (apiRequest fetch) = Inl err \<longrightarrow>
        success (request fetch now) = False \<and>
        data (request fetch now) = None \<and>
        error (request fetch now) =
          Some (if isErrorObject err then messageOf err else ''Unknown error'')"
    by (simp add: request_failure)
  have c6: "success (request fetch now) = (\<exists>d. fst (apiRequest fetch) = Inr d)"
    by (cases "fst (apiRequest fetch)") (simp_all add: request_def)
  from m3 ds getRetryDelay_formula c1 c2 c3 c4 c5 c6 show ?thesis by blast
qed

lemma flakyServer_run:
  "apiRequest flakyServer =
     (Inl (JsError False ''API request failed: 404 Not Found'' (Some 404)), [1000, 2000])"
  by code_simp

theorem api_request_retry_policy_witness:
  "snd (apiRequest flakyServer) = [1000, 2000] \<and>
   attemptOnce (flakyServer 2) =
     Caught (JsError False ''API request failed: 404 Not Found'' (Some 404)) \<and>
   success (request flakyServer 0) = False \<and>
   error (request flakyServer 0) = Some ''API request failed: 404 Not Found''"
proof -
  have "attemptOnce (flakyServer 2) =
     Caught (JsError False ''API request failed: 404 Not Found'' (Some 404))"
    by code_simp
  then show ?thesis
    using api_request_retry_policy [of flakyServer 0]
    by (simp add: flakyServer_run request_def)
qed


end
